theory Spec2Isabelle
  imports Main "HOL-Library.Sublist"
begin

text \<open>
  A model of \<^verbatim>\<open>scm-report-parser.py\<close>, the program that turns a configuration
  compatibility document into an HTML report, and the properties of its locator
  resolver, path formatter, record aggregator, section renderers and report assembler.
  The functions keep the names of the source; a function of the source that is long is
  cut into named pieces along its comments, with the source lines given.
\<close>

section \<open>Python strings\<close>

text \<open>
  Strings are character lists. The three string operations that the path code of
  \<^verbatim>\<open>scm-report-parser.py\<close> uses are \<^verbatim>\<open>str.split('/')\<close>, \<^verbatim>\<open>str.strip('/')\<close> and
  \<^verbatim>\<open>'/'.join(parts)\<close>, together with the substring test \<^verbatim>\<open>needle in part\<close>.
\<close>

text \<open>\<^verbatim>\<open>s.split(sep)\<close> for a one-character separator: empty pieces are kept.\<close>

fun split_on :: "char \<Rightarrow> string \<Rightarrow> string list" where
  "split_on sep [] = [[]]"
| "split_on sep (c # cs) =
     (if c = sep then [] # split_on sep cs
      else (case split_on sep cs of
              [] \<Rightarrow> [[c]]
            | piece # pieces \<Rightarrow> (c # piece) # pieces))"

text \<open>\<^verbatim>\<open>sep.join(parts)\<close>.\<close>

fun join :: "string \<Rightarrow> string list \<Rightarrow> string" where
  "join sep [] = []"
| "join sep [p] = p"
| "join sep (p # q # ps) = p @ sep @ join sep (q # ps)"

text \<open>\<^verbatim>\<open>s.strip(ch)\<close>: every leading and every trailing \<open>ch\<close> is removed.\<close>

definition strip :: "char \<Rightarrow> string \<Rightarrow> string" where
  "strip ch s = rev (dropWhile (\<lambda>c. c = ch) (rev (dropWhile (\<lambda>c. c = ch) s)))"

text \<open>\<^verbatim>\<open>needle in s\<close>: \<open>needle\<close> occurs in \<open>s\<close> as a contiguous run.\<close>

fun contains :: "string \<Rightarrow> string \<Rightarrow> bool" where
  "contains needle [] = (needle = [])"
| "contains needle (c # cs) = (prefix needle (c # cs) \<or> contains needle cs)"

section \<open>The name-predicate pattern\<close>

text \<open>
  Both the resolver and the formatter call
  \<^verbatim>\<open>re.search(r'entry\[@name="([^"]+)"\]', part)\<close>.
  At one start position the pattern matches exactly when the literal
  \<^verbatim>\<open>entry[@name="\<close> is followed by a non-empty run of characters other than the
  double quote and that run is followed by \<^verbatim>\<open>"]\<close>: the greedy class stops at the
  first double quote, and giving characters back never helps because the next
  pattern character is a double quote. \<open>match_here\<close> is the match at the start of
  the string and returns group 1; \<open>re_search\<close> tries the start positions from left
  to right, as \<^verbatim>\<open>re.search\<close> does.
\<close>

definition match_here :: "string \<Rightarrow> string option" where
  \<open>match_here s =
     (if prefix ''entry[@name="'' s then
        (let rest = drop 13 s;
             v = takeWhile (\<lambda>c. c \<noteq> CHR ''"'') rest
         in if v \<noteq> [] \<and> prefix ''"]'' (drop (length v) rest) then Some v else None)
      else None)\<close>

fun re_search :: "string \<Rightarrow> string option" where
  "re_search [] = match_here []"
| "re_search (c # cs) =
     (case match_here (c # cs) of Some v \<Rightarrow> Some v | None \<Rightarrow> re_search cs)"

section \<open>The configuration tree\<close>

text \<open>
  An \<^verbatim>\<open>xml.etree.ElementTree.Element\<close> as the resolver reads it: its tag, its
  attributes and its children in document order. \<open>element_get\<close> is
  \<^verbatim>\<open>Element.get(key)\<close>, which gives \<^verbatim>\<open>None\<close> for an absent attribute.
\<close>

datatype element =
  Element (tag: string) (attrib: "(string \<times> string) list") (children: "element list")

definition element_get :: "element \<Rightarrow> string \<Rightarrow> string option" where
  "element_get e k = map_of (attrib e) k"

text \<open>
  The two library calls on trees are parameters: \<open>tostring\<close> is
  \<^verbatim>\<open>ET.tostring(e, encoding='unicode', method='xml')\<close> and \<open>reindent\<close> is the
  sequence \<^verbatim>\<open>ET.fromstring\<close>, \<^verbatim>\<open>ET.indent\<close>, \<^verbatim>\<open>ET.tostring\<close> of
  \<^verbatim>\<open>pretty_print_xml\<close>. \<open>None\<close> stands for a raised exception.
\<close>

record xml_lib =
  tostring :: "element \<Rightarrow> string option"
  reindent :: "string \<Rightarrow> string option"

section \<open>The locator resolver\<close>

text \<open>
  The inner loops of \<^verbatim>\<open>extract_xml_from_xpath\<close> (lines 61--65 and 73--77):
  \<^verbatim>\<open>for child in current: if cond(child): current = child; found = True; break\<close>.
  The result is the new \<open>current\<close>, or \<open>None\<close> when \<open>found\<close> stays false.
\<close>

fun first_child :: "(element \<Rightarrow> bool) \<Rightarrow> element list \<Rightarrow> element option" where
  "first_child cond [] = None"
| "first_child cond (child # rest) = (if cond child then Some child else first_child cond rest)"

text \<open>The loop over \<open>parts\<close> (lines 52--79); every \<^verbatim>\<open>return None\<close> is a \<open>None\<close> branch.\<close>

fun walk :: "element \<Rightarrow> string list \<Rightarrow> element option" where
  "walk current [] = Some current"
| "walk current (part # parts) =
     (if contains ''entry[@name='' part then
        (case re_search part of
           Some name_value \<Rightarrow>
             (case first_child
                     (\<lambda>child. tag child = ''entry'' \<and> element_get child ''name'' = Some name_value)
                     (children current) of
                Some child \<Rightarrow> walk child parts
              | None \<Rightarrow> None)
         | None \<Rightarrow> None)
      else
        (case first_child (\<lambda>child. tag child = part) (children current) of
           Some child \<Rightarrow> walk child parts
         | None \<Rightarrow> None))"

text \<open>\<^verbatim>\<open>parts = [p for p in xpath.split('/') if p]\<close>.\<close>

definition path_parts :: "string \<Rightarrow> string list" where
  "path_parts xpath = filter (\<lambda>p. p \<noteq> []) (split_on CHR ''/'' xpath)"

text \<open>
  \<^verbatim>\<open>extract_xml_from_xpath(root, xpath)\<close>. The \<^verbatim>\<open>try/except Exception\<close> turns a
  raising \<open>tostring\<close> into \<^verbatim>\<open>None\<close>.
\<close>

definition extract_xml_from_xpath :: "xml_lib \<Rightarrow> element option \<Rightarrow> string \<Rightarrow> string option" where
  "extract_xml_from_xpath lib root xpath =
     (case root of
        None \<Rightarrow> None
      | Some r \<Rightarrow>
          (case walk r (path_parts xpath) of
             None \<Rightarrow> None
           | Some current \<Rightarrow> tostring lib current))"

text \<open>\<^verbatim>\<open>pretty_print_xml(xml_string)\<close>: a failed re-indentation returns the text as it came.\<close>

definition pretty_print_xml :: "xml_lib \<Rightarrow> string option \<Rightarrow> string option" where
  "pretty_print_xml lib xml_string =
     (case xml_string of
        None \<Rightarrow> None
      | Some s \<Rightarrow>
          (if s = [] then None
           else (case reindent lib s of Some t \<Rightarrow> Some t | None \<Rightarrow> Some s)))"

section \<open>The path formatter\<close>

text \<open>The body of the loop of \<^verbatim>\<open>format_xpath\<close> (lines 112--121) for one part.\<close>

definition format_part :: "string \<Rightarrow> string" where
  "format_part part =
     (if contains ''entry[@name='' part then
        (case re_search part of Some v \<Rightarrow> v | None \<Rightarrow> part)
      else part)"

definition format_xpath :: "string \<Rightarrow> string" where
  "format_xpath xpath =
     (let stripped = strip CHR ''/'' xpath;
          parts = split_on CHR ''/'' stripped;
          formatted_parts = map format_part parts
      in ''/'' @ join ''/'' formatted_parts)"

section \<open>Library functions on text\<close>

text \<open>
  \<^verbatim>\<open>html.escape(s)\<close> with the default \<^verbatim>\<open>quote=True\<close>: five calls of
  \<^verbatim>\<open>str.replace\<close>, the ampersand first.
\<close>

definition replace_char :: "char \<Rightarrow> string \<Rightarrow> string \<Rightarrow> string" where
  "replace_char old new s = concat (map (\<lambda>c. if c = old then new else [c]) s)"

definition escape :: "string \<Rightarrow> string" where
  \<open>escape s =
     replace_char (CHR 0x27) ''&#x27;''
       (replace_char (CHR ''"'') ''&quot;''
          (replace_char (CHR ''>'') ''&gt;''
             (replace_char (CHR ''<'') ''&lt;''
                (replace_char (CHR ''&'') ''&amp;'' s))))\<close>

text \<open>\<^verbatim>\<open>str(n)\<close> for an integer, which is also how an f-string formats it.\<close>

function str_nat :: "nat \<Rightarrow> string" where
  "str_nat n =
     (if n < 10 then [''0123456789'' ! n]
      else str_nat (n div 10) @ [''0123456789'' ! (n mod 10)])"
  by pat_completeness auto
termination
  by (relation "measure id") auto

definition str_int :: "int \<Rightarrow> string" where
  "str_int i = (if i < 0 then ''-'' @ str_nat (nat (- i)) else str_nat (nat i))"

section \<open>The input document\<close>

text \<open>
  The input is the parsed JSON document: a list of sections, each a JSON object read
  through the keys \<^verbatim>\<open>category\<close> and \<^verbatim>\<open>details\<close>. A JSON object is modelled by the keys
  the program reads, with \<open>None\<close> for an absent key, and each value has the type that
  the data model gives it. A finding is the object of the three flat categories and
  of the configuration summary. Its field \<open>item_tag\<close> is the key \<^verbatim>\<open>tag\<close>;
  \<open>referenced_in\<close> is \<^verbatim>\<open>item['referenced-in']['templates']\<close> and
  \<open>referenced_in_with_xpaths\<close> is \<^verbatim>\<open>item['referenced-in-with-xpaths']['templates']\<close>,
  each \<open>None\<close> when either key is absent (the code reads both levels with
  \<^verbatim>\<open>.get\<close> and treats the two absences alike).
\<close>

record finding =
  rule_id :: "string option"
  description :: "string option"
  feature :: "string option"
  item_tag :: "string option"
  group :: "string option"
  count :: "int option"
  location :: "string option"
  referenced_in :: "string list option"
  referenced_in_with_xpaths :: "(string \<times> string list) list option"

record template_data =
  unsupported_drop :: "string list option"
  supported_drop :: "string list option"

text \<open>A device group; \<open>group_children\<close> is the key \<^verbatim>\<open>children\<close>, empty when absent.\<close>

datatype device_group =
  DeviceGroup
    (name: "string option")
    (total_unsupported: "int option")
    (total_partially_supported: "int option")
    (devices: "string list option")
    (template_stacks: "string list option")
    (templates: "string list option")
    (group_children: "device_group list")

text \<open>
  The payload under \<^verbatim>\<open>details\<close>: a list of findings, a keyed map from template name
  to template data (in the order of \<^verbatim>\<open>dict.items()\<close>), or a list of device groups.
\<close>

datatype details =
  Records "finding list"
| Keyed "(string \<times> template_data) list"
| Groups "device_group list"

record doc_section =
  category :: "string option"
  details :: "details option"

text \<open>\<^verbatim>\<open>section.get('category', default)\<close> and \<^verbatim>\<open>section.get('details', [])\<close>.\<close>

definition get_category :: "doc_section \<Rightarrow> string \<Rightarrow> string" where
  "get_category sec dflt = (case category sec of None \<Rightarrow> dflt | Some c \<Rightarrow> c)"

definition get_details :: "doc_section \<Rightarrow> details" where
  "get_details sec = (case details sec of None \<Rightarrow> Records [] | Some d \<Rightarrow> d)"

text \<open>Truth value of a payload: \<^verbatim>\<open>if details\<close> holds for a non-empty list or dict.\<close>

fun truthy :: "details \<Rightarrow> bool" where
  "truthy (Records items) = (items \<noteq> [])"
| "truthy (Keyed entries) = (entries \<noteq> [])"
| "truthy (Groups groups) = (groups \<noteq> [])"

text \<open>
  The program is dynamically typed, so a renderer can be handed a payload of another
  shape. A renderer that reads findings iterates the payload and calls \<^verbatim>\<open>item.get\<close>:
  on a list of device groups every key of a finding is absent, and on a non-empty
  keyed map the items are the keys, strings, on which \<^verbatim>\<open>.get\<close> raises
  \<^verbatim>\<open>AttributeError\<close>. The other two readings are alike: \<^verbatim>\<open>details.items()\<close> raises
  on a non-empty list.
\<close>

datatype error = AttributeError

definition no_finding :: finding where
  "no_finding =
     \<lparr>rule_id = None, description = None, feature = None, item_tag = None, group = None,
      count = None, location = None, referenced_in = None, referenced_in_with_xpaths = None\<rparr>"

definition no_group :: device_group where
  "no_group = DeviceGroup None None None None None None []"

fun records_of :: "details \<Rightarrow> error + finding list" where
  "records_of (Records items) = Inr items"
| "records_of (Groups groups) = Inr (map (\<lambda>g. no_finding) groups)"
| "records_of (Keyed entries) = (if entries = [] then Inr [] else Inl AttributeError)"

fun keyed_of :: "details \<Rightarrow> error + (string \<times> template_data) list" where
  "keyed_of (Keyed entries) = Inr entries"
| "keyed_of (Records items) = (if items = [] then Inr [] else Inl AttributeError)"
| "keyed_of (Groups groups) = (if groups = [] then Inr [] else Inl AttributeError)"

fun groups_of :: "details \<Rightarrow> error + device_group list" where
  "groups_of (Groups groups) = Inr groups"
| "groups_of (Records items) = Inr (map (\<lambda>f. no_group) items)"
| "groups_of (Keyed entries) = (if entries = [] then Inr [] else Inl AttributeError)"

text \<open>Sequencing of computations that may raise.\<close>

fun and_then :: "error + 'a \<Rightarrow> ('a \<Rightarrow> error + 'b) \<Rightarrow> error + 'b" where
  "and_then (Inl e) f = Inl e"
| "and_then (Inr v) f = f v"

text \<open>\<^verbatim>\<open>d.get(key, default)\<close> on an optional string field.\<close>

definition get_or :: "'a option \<Rightarrow> 'a \<Rightarrow> 'a" where
  "get_or v dflt = (case v of None \<Rightarrow> dflt | Some x \<Rightarrow> x)"

section \<open>The record aggregator\<close>

text \<open>The dictionary \<^verbatim>\<open>summary_item\<close> of \<^verbatim>\<open>generate_summary_table\<close> (lines 138--147).\<close>

record summary_item =
  row_category :: string
  row_rule_id :: string
  row_description :: string
  row_feature :: string
  row_tag :: string
  row_group :: string
  row_count :: int
  row_location :: string

definition make_summary_item :: "string \<Rightarrow> finding \<Rightarrow> summary_item" where
  "make_summary_item cat item =
     \<lparr>row_category = cat,
      row_rule_id = get_or (rule_id item) ''N/A'',
      row_description = get_or (description item) ''N/A'',
      row_feature = get_or (feature item) ''N/A'',
      row_tag = get_or (item_tag item) ''N/A'',
      row_group = get_or (group item) ''N/A'',
      row_count = get_or (count item) 0,
      row_location = get_or (location item) ''N/A''\<rparr>"

text \<open>
  The collecting loop (lines 132--148), with \<open>all_items\<close> as accumulator; the inner
  loop appends one row per item.
\<close>

fun collect_items :: "doc_section list \<Rightarrow> summary_item list \<Rightarrow> error + summary_item list" where
  "collect_items [] all_items = Inr all_items"
| "collect_items (sec # rest) all_items =
     (let cat = get_category sec '''' in
      if cat \<in> set [''Unsupported Features'', ''Unsupported Flags'', ''Blocking Features''] then
        and_then (records_of (get_details sec))
          (\<lambda>items. collect_items rest (all_items @ map (make_summary_item cat) items))
      else collect_items rest all_items)"

definition summary_items :: "doc_section list \<Rightarrow> error + summary_item list" where
  "summary_items data = collect_items data []"

definition category_class :: "string \<Rightarrow> string" where
  "category_class cat =
     (if cat = ''Unsupported Features'' then ''category-unsupported''
      else if cat = ''Unsupported Flags'' then ''category-flags''
      else if cat = ''Blocking Features'' then ''category-blocking''
      else '''')"

definition summary_row :: "summary_item \<Rightarrow> string" where
  \<open>summary_row item =
     ''\<newline>'' @
     ''                <tr class="'' @ category_class (row_category item) @ ''">\<newline>'' @
     ''                    <td class="category-cell">'' @ escape (row_category item) @ ''</td>\<newline>'' @
     ''                    <td class="rule-id-cell">'' @ escape (row_rule_id item) @ ''</td>\<newline>'' @
     ''                    <td class="description-cell">'' @ escape (row_description item) @ ''</td>\<newline>'' @
     ''                    <td>'' @ escape (row_feature item) @ ''</td>\<newline>'' @
     ''                    <td>'' @ escape (row_tag item) @ ''</td>\<newline>'' @
     ''                    <td>'' @ escape (row_group item) @ ''</td>\<newline>'' @
     ''                    <td class="count-cell">'' @ str_int (row_count item) @ ''</td>\<newline>'' @
     ''                    <td>'' @ escape (row_location item) @ ''</td>\<newline>'' @
     ''                </tr>\<newline>'' @
     ''        ''\<close>

definition summary_table_head :: string where
  \<open>summary_table_head =
     ''\<newline>'' @
     ''    <div class="table-container">\<newline>'' @
     ''        <table class="summary-table">\<newline>'' @
     ''            <thead>\<newline>'' @
     ''                <tr>\<newline>'' @
     ''                    <th>Category</th>\<newline>'' @
     ''                    <th>Rule ID</th>\<newline>'' @
     ''                    <th>Description</th>\<newline>'' @
     ''                    <th>Feature</th>\<newline>'' @
     ''                    <th>Tag</th>\<newline>'' @
     ''                    <th>Group</th>\<newline>'' @
     ''                    <th>Count</th>\<newline>'' @
     ''                    <th>Location</th>\<newline>'' @
     ''                </tr>\<newline>'' @
     ''            </thead>\<newline>'' @
     ''            <tbody>\<newline>'' @
     ''    ''\<close>

definition summary_table_foot :: string where
  \<open>summary_table_foot =
     ''\<newline>'' @
     ''            </tbody>\<newline>'' @
     ''        </table>\<newline>'' @
     ''    </div>\<newline>'' @
     ''    ''\<close>

definition generate_summary_table :: "doc_section list \<Rightarrow> error + string" where
  \<open>generate_summary_table data =
     and_then (summary_items data)
       (\<lambda>all_items.
          if all_items = [] then Inr ''<p class="no-issues">No issues found in configuration.</p>''
          else Inr (summary_table_head @ concat (map summary_row all_items) @ summary_table_foot))\<close>

section \<open>The flat-section renderers\<close>

text \<open>The card of one item up to the location row (lines 211--242).\<close>

definition card_fields :: "finding \<Rightarrow> string" where
  \<open>card_fields item =
     ''\<newline>'' @
     ''        <div class="detail-card unsupported">\<newline>'' @
     ''            <div class="detail-header">\<newline>'' @
     ''                <h4>'' @ escape (get_or (description item) ''N/A'') @ ''</h4>\<newline>'' @
     ''                <span class="badge badge-error">Unsupported</span>\<newline>'' @
     ''            </div>\<newline>'' @
     ''            <div class="detail-content">\<newline>'' @
     ''                <div class="info-row">\<newline>'' @
     ''                    <span class="label">Rule ID:</span>\<newline>'' @
     ''                    <span class="value">'' @ escape (get_or (rule_id item) ''N/A'') @ ''</span>\<newline>'' @
     ''                </div>\<newline>'' @
     ''                <div class="info-row">\<newline>'' @
     ''                    <span class="label">Feature:</span>\<newline>'' @
     ''                    <span class="value">'' @ escape (get_or (feature item) ''N/A'') @ ''</span>\<newline>'' @
     ''                </div>\<newline>'' @
     ''                <div class="info-row">\<newline>'' @
     ''                    <span class="label">Tag:</span>\<newline>'' @
     ''                    <span class="value">'' @ escape (get_or (item_tag item) ''N/A'') @ ''</span>\<newline>'' @
     ''                </div>\<newline>'' @
     ''                <div class="info-row">\<newline>'' @
     ''                    <span class="label">Group:</span>\<newline>'' @
     ''                    <span class="value">'' @ escape (get_or (group item) ''N/A'') @ ''</span>\<newline>'' @
     ''                </div>\<newline>'' @
     ''                <div class="info-row">\<newline>'' @
     ''                    <span class="label">Count:</span>\<newline>'' @
     ''                    <span class="value count">'' @ str_int (get_or (count item) 0) @ ''</span>\<newline>'' @
     ''                </div>\<newline>'' @
     ''                <div class="info-row">\<newline>'' @
     ''                    <span class="label">Location:</span>\<newline>'' @
     ''                    <span class="value">'' @ escape (get_or (location item) ''N/A'') @ ''</span>\<newline>'' @
     ''                </div>\<newline>'' @
     ''        ''\<close>

text \<open>The block of referenced templates (lines 245--252).\<close>

definition referenced_templates :: "finding \<Rightarrow> string" where
  \<open>referenced_templates item =
     (case referenced_in item of
        None \<Rightarrow> []
      | Some names \<Rightarrow>
          if names = [] then []
          else ''<div class="referenced-section">'' @
               ''<h5>Referenced in Templates:</h5>'' @
               ''<ul class="template-list">'' @
               concat (map (\<lambda>template. ''<li>'' @ escape template @ ''</li>'') names) @
               ''</ul></div>'')\<close>

text \<open>One list item of a configuration path (lines 263--277).\<close>

definition xpath_item :: "xml_lib \<Rightarrow> element option \<Rightarrow> string \<Rightarrow> string" where
  \<open>xpath_item lib xml_root xpath =
     (let formatted_xpath = format_xpath xpath in
      ''<li class="xpath-item">'' @ formatted_xpath @
      (case xml_root of
         None \<Rightarrow> []
       | Some r \<Rightarrow>
           (case extract_xml_from_xpath lib (Some r) xpath of
              None \<Rightarrow> []
            | Some xml_content \<Rightarrow>
                if xml_content = [] then []
                else (case pretty_print_xml lib (Some xml_content) of
                        None \<Rightarrow> []
                      | Some pretty_xml \<Rightarrow>
                          if pretty_xml = [] then []
                          else ''<div class="xml-content">'' @
                               ''<div class="xml-content-header">Configuration XML:</div>'' @
                               ''<pre class="xml-code">'' @ escape pretty_xml @ ''</pre>'' @
                               ''</div>''))) @
      ''</li>'')\<close>

text \<open>The block of configuration paths (lines 255--279).\<close>

definition configuration_paths :: "xml_lib \<Rightarrow> element option \<Rightarrow> finding \<Rightarrow> string" where
  \<open>configuration_paths lib xml_root item =
     (case referenced_in_with_xpaths item of
        None \<Rightarrow> []
      | Some entries \<Rightarrow>
          if entries = [] then []
          else ''<div class="xpath-section">'' @
               ''<h5>Configuration Paths:</h5>'' @
               concat (map (\<lambda>(template, xpaths).
                              ''<div class="xpath-template"><strong>'' @ escape template @
                              '':</strong></div>'' @
                              ''<ul class="xpath-list">'' @
                              concat (map (xpath_item lib xml_root) xpaths) @
                              ''</ul>'')
                           entries) @
               ''</div>'')\<close>

text \<open>The whole body of the loop over \<open>details\<close> (lines 210--281).\<close>

definition detail_card :: "xml_lib \<Rightarrow> element option \<Rightarrow> finding \<Rightarrow> string" where
  \<open>detail_card lib xml_root item =
     card_fields item @ referenced_templates item @ configuration_paths lib xml_root item @
     ''</div></div>''\<close>

definition generate_unsupported_features_section ::
  "xml_lib \<Rightarrow> details \<Rightarrow> element option \<Rightarrow> error + string" where
  \<open>generate_unsupported_features_section lib payload xml_root =
     (if \<not> truthy payload then Inr ''<p class="no-issues">No unsupported features found.</p>''
      else and_then (records_of payload)
             (\<lambda>items. Inr (''<div class="details-grid">'' @
                            concat (map (detail_card lib xml_root) items) @
                            ''</div>'')))\<close>

definition generate_unsupported_flags_section ::
  "xml_lib \<Rightarrow> details \<Rightarrow> element option \<Rightarrow> error + string" where
  \<open>generate_unsupported_flags_section lib payload xml_root =
     (if \<not> truthy payload then Inr ''<p class="no-issues">No unsupported flags found.</p>''
      else generate_unsupported_features_section lib payload xml_root)\<close>

definition generate_blocking_features_section ::
  "xml_lib \<Rightarrow> details \<Rightarrow> element option \<Rightarrow> error + string" where
  \<open>generate_blocking_features_section lib payload xml_root =
     (if \<not> truthy payload then Inr ''<p class="success">No blocking features found.</p>''
      else generate_unsupported_features_section lib payload xml_root)\<close>

section \<open>The other section renderers\<close>

definition summary_entry :: "finding \<Rightarrow> string" where
  \<open>summary_entry item =
     (let desc = escape (get_or (description item) ''N/A'');
          cnt = escape (case count item of None \<Rightarrow> ''N/A'' | Some n \<Rightarrow> str_int n)
      in ''\<newline>'' @
         ''        <div class="summary-item">\<newline>'' @
         ''            <span class="summary-label">'' @ desc @ '':</span>\<newline>'' @
         ''            <span class="summary-value">'' @ cnt @ ''</span>\<newline>'' @
         ''        </div>\<newline>'' @
         ''        '')\<close>

definition generate_config_summary_section :: "details \<Rightarrow> error + string" where
  \<open>generate_config_summary_section payload =
     (if \<not> truthy payload then Inr ''<p>No configuration summary available.</p>''
      else and_then (records_of payload)
             (\<lambda>items. Inr (''<div class="summary-grid">'' @
                            concat (map summary_entry items) @
                            ''</div>'')))\<close>

text \<open>The body of the loop of \<^verbatim>\<open>generate_templates_section\<close> (lines 332--358).\<close>

definition feature_list :: "string \<Rightarrow> string list option \<Rightarrow> string" where
  \<open>feature_list heading features =
     (case features of
        None \<Rightarrow> []
      | Some names \<Rightarrow>
          if names = [] then []
          else ''<div class="template-section">'' @ heading @
               concat (map (\<lambda>feat. ''<li>'' @ escape feat @ ''</li>'') names) @
               ''</ul></div>'')\<close>

definition template_card :: "string \<times> template_data \<Rightarrow> string" where
  \<open>template_card entry =
     (case entry of (template_name, data) \<Rightarrow>
        ''\<newline>'' @
        ''        <div class="template-card">\<newline>'' @
        ''            <h4 class="template-name">'' @ escape template_name @ ''</h4>\<newline>'' @
        ''        '' @
        feature_list
          (''<h5 class="section-title unsupported-title">Unsupported Features:</h5>'' @
           ''<ul class="feature-list unsupported-list">'')
          (unsupported_drop data) @
        feature_list
          (''<h5 class="section-title supported-title">Supported but Dropped:</h5>'' @
           ''<ul class="feature-list supported-list">'')
          (supported_drop data) @
        ''</div>'')\<close>

definition generate_templates_section :: "details \<Rightarrow> error + string" where
  \<open>generate_templates_section payload =
     (if \<not> truthy payload then Inr ''<p>No template details available.</p>''
      else and_then (keyed_of payload)
             (\<lambda>entries. Inr (''<div class="templates-grid">'' @
                              concat (map template_card entries) @
                              ''</div>'')))\<close>

text \<open>\<^verbatim>\<open>generate_device_group_tree(group, level)\<close>.\<close>

definition group_info :: "string \<Rightarrow> string list option \<Rightarrow> string" where
  \<open>group_info label names =
     (case names of
        None \<Rightarrow> []
      | Some ns \<Rightarrow>
          if ns = [] then []
          else ''<div class="group-info">'' @ label @ join '', '' (map escape ns) @ ''</div>'')\<close>

fun generate_device_group_tree :: "device_group \<Rightarrow> nat \<Rightarrow> string" where
  \<open>generate_device_group_tree (DeviceGroup nm unsupported partial devs stacks tmpls kids) level =
     (let indent = level * 20;
          total_unsupported = get_or unsupported 0;
          total_partial = get_or partial 0;
          status_class =
            (if total_unsupported > 0 then ''has-unsupported''
             else if total_partial > 0 then ''has-partial''
             else ''has-none'');
          status_badge =
            (if total_unsupported > 0 then
               ''<span class="badge badge-error">'' @ str_int total_unsupported @ '' unsupported</span>''
             else if total_partial > 0 then
               ''<span class="badge badge-warning">'' @ str_int total_partial @ '' partial</span>''
             else ''<span class="badge badge-success">All supported</span>'')
      in ''<div class="device-group '' @ status_class @ ''" style="margin-left: '' @
           str_int (int indent) @ ''px;">'' @
         ''<div class="group-header">'' @
         ''<h4 class="group-name">'' @ escape (get_or nm ''Unknown'') @ ''</h4>'' @
         status_badge @
         ''</div>'' @
         group_info ''<strong>Devices:</strong> '' devs @
         group_info ''<strong>Template Stacks:</strong> '' stacks @
         group_info ''<strong>Templates:</strong> '' tmpls @
         ''</div>'' @
         concat (map (\<lambda>child. generate_device_group_tree child (level + 1)) kids))\<close>

definition generate_device_groups_section :: "details \<Rightarrow> error + string" where
  \<open>generate_device_groups_section payload =
     (if \<not> truthy payload then Inr ''<p>No device group details available.</p>''
      else and_then (groups_of payload)
             (\<lambda>groups. Inr (''<div class="device-groups-container">'' @
                             concat (map (\<lambda>g. generate_device_group_tree g 0) groups) @
                             ''</div>'')))\<close>

section \<open>The report assembler\<close>

text \<open>
  The dictionary \<open>sections\<close> (lines 433--436): a later section with the same category
  replaces the earlier entry.
\<close>

definition extract_sections :: "doc_section list \<Rightarrow> (string \<rightharpoonup> details)" where
  "extract_sections data =
     foldl (\<lambda>sections sec. sections(get_category sec ''Unknown'' \<mapsto> get_details sec))
       Map.empty data"

text \<open>The truth value of \<^verbatim>\<open>sections.get(cat)\<close>.\<close>

definition section_truthy :: "(string \<rightharpoonup> details) \<Rightarrow> string \<Rightarrow> bool" where
  "section_truthy sections cat = (case sections cat of None \<Rightarrow> False | Some d \<Rightarrow> truthy d)"

text \<open>
  \<^verbatim>\<open>any(sections.get(cat) for cat in ['Unsupported Features', 'Unsupported Flags',
  'Blocking Features'])\<close>, the test of lines 440 and 999.
\<close>

definition any_flat :: "(string \<rightharpoonup> details) \<Rightarrow> bool" where
  "any_flat sections =
     list_ex (section_truthy sections)
       [''Unsupported Features'', ''Unsupported Flags'', ''Blocking Features'']"

text \<open>The list \<open>toc_entries\<close> (lines 439--455).\<close>

definition toc_entries :: "(string \<rightharpoonup> details) \<Rightarrow> (string \<times> string) list" where
  "toc_entries sections =
     (if any_flat sections then [(''summary'', ''Summary of Issues'')] else []) @
     (if section_truthy sections ''Unsupported Features''
      then [(''unsupported-features'', ''Unsupported Features'')] else []) @
     (if section_truthy sections ''Unsupported Flags''
      then [(''unsupported-flags'', ''Unsupported Flags'')] else []) @
     (if section_truthy sections ''Blocking Features''
      then [(''blocking-features'', ''Blocking Features'')] else []) @
     (if section_truthy sections ''Configuration Summary''
      then [(''config-summary'', ''Configuration Summary'')] else []) @
     (if section_truthy sections ''Templates''
      then [(''templates'', ''Templates'')] else []) @
     (if ''Template-stacks'' \<in> dom sections
      then [(''template-stacks'', ''Template Stacks'')] else []) @
     (if section_truthy sections ''Device Groups''
      then [(''device-groups'', ''Device Groups'')] else [])"

text \<open>
  The opening of the page (lines 457--988). \<open>style\<close> is the text of the style sheet,
  lines 464--975 of the source, a constant of the program that no claim reads; \<open>now\<close>
  is the clock reading \<^verbatim>\<open>datetime.now().strftime('%Y-%m-%d %H:%M:%S')\<close>. The one literal
  of the source is cut at the field that holds the clock reading.
\<close>

definition page_head_before :: "string \<Rightarrow> string" where
  \<open>page_head_before style =
     ''<!DOCTYPE html>\<newline>'' @
     ''<html lang="en">\<newline>'' @
     ''<head>\<newline>'' @
     ''    <meta charset="UTF-8">\<newline>'' @
     ''    <meta name="viewport" content="width=device-width, initial-scale=1.0">\<newline>'' @
     ''    <title>SCM Migration Compatibility Report</title>\<newline>'' @
     ''    <style>\<newline>'' @
     style @
     ''    </style>\<newline>'' @
     ''</head>\<newline>'' @
     ''<body>\<newline>'' @
     ''    <div class="container">\<newline>'' @
     ''        <h1>SCM Migration Compatibility Report</h1>\<newline>'' @
     ''        <div class="report-meta">\<newline>'' @
     ''            Generated on: ''\<close>

definition page_head_after :: string where
  \<open>page_head_after =
     ''\<newline>'' @
     ''        </div>\<newline>'' @
     ''        \<newline>'' @
     ''        <div class="toc">\<newline>'' @
     ''            <h2>Table of Contents</h2>\<newline>'' @
     ''            <ul>\<newline>''\<close>

definition page_head :: "string \<Rightarrow> string \<Rightarrow> string" where
  "page_head style now = page_head_before style @ escape now @ page_head_after"

definition toc_link :: "string \<times> string \<Rightarrow> string" where
  \<open>toc_link entry =
     (case entry of (anchor, title) \<Rightarrow>
        ''                <li><a href="#'' @ anchor @ ''">'' @ escape title @ ''</a></li>\<newline>'')\<close>

definition toc_close :: string where
  \<open>toc_close =
     ''            </ul>\<newline>'' @
     ''        </div>\<newline>''\<close>

definition page_foot :: string where
  \<open>page_foot =
     ''\<newline>'' @
     ''    </div>\<newline>'' @
     ''</body>\<newline>'' @
     ''</html>\<newline>''\<close>

text \<open>
  \<^verbatim>\<open>generate_html_report(data, xml_root)\<close>. Each step appends to \<open>html\<close> as the
  source does, in the source's order; a renderer that raises ends the run.
\<close>

definition generate_html_report ::
  "xml_lib \<Rightarrow> string \<Rightarrow> string \<Rightarrow> doc_section list \<Rightarrow> element option \<Rightarrow> error + string" where
  \<open>generate_html_report lib style now data xml_root =
     (let sections = extract_sections data;
          entries = toc_entries sections;
          html = page_head style now;
          html = html @ concat (map toc_link entries);
          html = html @ toc_close
      in
      and_then
        (if any_flat sections then
           and_then (generate_summary_table data)
             (\<lambda>table. Inr (html @ ''        <h2 id="summary">Summary of Issues</h2>\<newline>'' @ table))
         else Inr html)
      (\<lambda>html.
      and_then
        (case sections ''Unsupported Features'' of
           None \<Rightarrow> Inr html
         | Some payload \<Rightarrow>
             and_then (generate_unsupported_features_section lib payload xml_root)
               (\<lambda>body. Inr (html @ ''<h2 id="unsupported-features">Unsupported Features</h2>'' @ body)))
      (\<lambda>html.
      and_then
        (case sections ''Unsupported Flags'' of
           None \<Rightarrow> Inr html
         | Some payload \<Rightarrow>
             and_then (generate_unsupported_flags_section lib payload xml_root)
               (\<lambda>body. Inr (html @ ''<h2 id="unsupported-flags">Unsupported Flags</h2>'' @ body)))
      (\<lambda>html.
      and_then
        (case sections ''Blocking Features'' of
           None \<Rightarrow> Inr html
         | Some payload \<Rightarrow>
             and_then (generate_blocking_features_section lib payload xml_root)
               (\<lambda>body. Inr (html @ ''<h2 id="blocking-features">Blocking Features</h2>'' @ body)))
      (\<lambda>html.
      and_then
        (case sections ''Configuration Summary'' of
           None \<Rightarrow> Inr html
         | Some payload \<Rightarrow>
             and_then (generate_config_summary_section payload)
               (\<lambda>body. Inr (html @ ''<h2 id="config-summary">Configuration Summary</h2>'' @ body)))
      (\<lambda>html.
      and_then
        (case sections ''Templates'' of
           None \<Rightarrow> Inr html
         | Some payload \<Rightarrow>
             and_then (generate_templates_section payload)
               (\<lambda>body. Inr (html @ ''<h2 id="templates">Templates</h2>'' @ body)))
      (\<lambda>html.
      and_then
        (case sections ''Template-stacks'' of
           None \<Rightarrow> Inr html
         | Some payload \<Rightarrow>
             and_then
               (if truthy payload then generate_templates_section payload
                else Inr ''<p>No template stack details available.</p>'')
               (\<lambda>body. Inr (html @ ''<h2 id="template-stacks">Template Stacks</h2>'' @ body)))
      (\<lambda>html.
      and_then
        (case sections ''Device Groups'' of
           None \<Rightarrow> Inr html
         | Some payload \<Rightarrow>
             and_then (generate_device_groups_section payload)
               (\<lambda>body. Inr (html @ ''<h2 id="device-groups">Device Groups</h2>'' @ body)))
      (\<lambda>html. Inr (html @ page_foot))))))))))\<close>

section \<open>The resolver as the specification words it\<close>

text \<open>
  The reference description of the walk, written from the specification and compared
  with \<open>walk\<close> below. \<open>first_match cond cs c\<close>: \<open>c\<close> is the first child in document
  order that satisfies \<open>cond\<close>.
\<close>

definition first_match :: "(element \<Rightarrow> bool) \<Rightarrow> element list \<Rightarrow> element \<Rightarrow> bool" where
  "first_match cond cs c \<longleftrightarrow>
     (\<exists>i < length cs. cs ! i = c \<and> cond c \<and> (\<forall>j < i. \<not> cond (cs ! j)))"

text \<open>
  \<open>predicate_at seg pre v\<close>: after the text \<open>pre\<close> the segment carries the name
  predicate \<^verbatim>\<open>entry[@name="v"]\<close> with a non-empty, quote-free value.
  \<open>name_predicate seg v\<close>: \<open>v\<close> is the value of the leftmost such predicate, the
  extracted value. A bare segment does not contain the text \<^verbatim>\<open>entry[@name=\<close>; a
  malformed one contains it without a well-formed predicate.
\<close>

definition predicate_at :: "string \<Rightarrow> string \<Rightarrow> string \<Rightarrow> bool" where
  \<open>predicate_at seg pre v \<longleftrightarrow>
     (\<exists>post. seg = pre @ ''entry[@name="'' @ v @ ''"]'' @ post) \<and> v \<noteq> [] \<and> CHR ''"'' \<notin> set v\<close>

definition name_predicate :: "string \<Rightarrow> string \<Rightarrow> bool" where
  "name_predicate seg v \<longleftrightarrow>
     (\<exists>pre. predicate_at seg pre v \<and>
            (\<forall>pre' v'. predicate_at seg pre' v' \<longrightarrow> length pre \<le> length pre'))"

definition bare_segment :: "string \<Rightarrow> bool" where
  "bare_segment seg \<longleftrightarrow> \<not> (\<exists>pre post. seg = pre @ ''entry[@name='' @ post)"

definition malformed_segment :: "string \<Rightarrow> bool" where
  "malformed_segment seg \<longleftrightarrow> \<not> bare_segment seg \<and> \<not> (\<exists>v. name_predicate seg v)"

text \<open>The child that one segment selects below a node.\<close>

definition segment_child :: "element \<Rightarrow> string \<Rightarrow> element \<Rightarrow> bool" where
  "segment_child node seg child \<longleftrightarrow>
     (\<exists>v. name_predicate seg v \<and>
          first_match (\<lambda>c. tag c = ''entry'' \<and> element_get c ''name'' = Some v)
            (children node) child) \<or>
     (bare_segment seg \<and> first_match (\<lambda>c. tag c = seg) (children node) child)"

text \<open>\<open>resolves node segs target\<close>: every segment in turn selects a child, down to \<open>target\<close>.\<close>

inductive resolves :: "element \<Rightarrow> string list \<Rightarrow> element \<Rightarrow> bool" where
  resolves_done: "resolves node [] node"
| resolves_step:
    "segment_child node seg child \<Longrightarrow> resolves child segs target \<Longrightarrow>
     resolves node (seg # segs) target"

section \<open>The aggregator and the assembler as the specification words them\<close>

text \<open>The three flat categories.\<close>

definition flat_category :: "string \<Rightarrow> bool" where
  "flat_category c \<longleftrightarrow>
     c = ''Unsupported Features'' \<or> c = ''Unsupported Flags'' \<or> c = ''Blocking Features''"

text \<open>
  A normalised row: the category and the seven fields of the record, with the
  placeholder \<^verbatim>\<open>N/A\<close> for a missing field and zero for a missing count.
\<close>

definition normalized_row :: "string \<Rightarrow> finding \<Rightarrow> summary_item" where
  "normalized_row c f =
     \<lparr>row_category = c,
      row_rule_id = (case rule_id f of None \<Rightarrow> ''N/A'' | Some x \<Rightarrow> x),
      row_description = (case description f of None \<Rightarrow> ''N/A'' | Some x \<Rightarrow> x),
      row_feature = (case feature f of None \<Rightarrow> ''N/A'' | Some x \<Rightarrow> x),
      row_tag = (case item_tag f of None \<Rightarrow> ''N/A'' | Some x \<Rightarrow> x),
      row_group = (case group f of None \<Rightarrow> ''N/A'' | Some x \<Rightarrow> x),
      row_count = (case count f of None \<Rightarrow> 0 | Some n \<Rightarrow> n),
      row_location = (case location f of None \<Rightarrow> ''N/A'' | Some x \<Rightarrow> x)\<rparr>"

text \<open>
  The records of a section, and whether they can be read as records at all (a
  non-empty keyed map cannot). The rows of one section: one per record, in record
  order, for a flat category only.
\<close>

definition readable_records :: "doc_section \<Rightarrow> bool" where
  "readable_records sec \<longleftrightarrow> \<not> isl (records_of (get_details sec))"

definition section_records :: "doc_section \<Rightarrow> finding list" where
  "section_records sec = (case records_of (get_details sec) of Inl e \<Rightarrow> [] | Inr items \<Rightarrow> items)"

definition section_rows :: "doc_section \<Rightarrow> summary_item list" where
  "section_rows sec =
     (if flat_category (get_category sec '''')
      then map (normalized_row (get_category sec '''')) (section_records sec)
      else [])"

text \<open>
  Whether a category is present in the input, and the payload of the last section that
  carries it (read only for a category that is present).
\<close>

definition present :: "string \<Rightarrow> doc_section list \<Rightarrow> bool" where
  "present c data \<longleftrightarrow> list_ex (\<lambda>sec. get_category sec ''Unknown'' = c) data"

definition last_payload :: "string \<Rightarrow> doc_section list \<Rightarrow> details" where
  "last_payload c data = get_details (last (filter (\<lambda>sec. get_category sec ''Unknown'' = c) data))"

text \<open>
  The Summary section is due when, for one of the three flat categories, the last
  section of that category has a non-empty payload.
\<close>

definition summary_due :: "doc_section list \<Rightarrow> bool" where
  "summary_due data \<longleftrightarrow>
     list_ex (\<lambda>c. present c data \<and> truthy (last_payload c data))
       [''Unsupported Features'', ''Unsupported Flags'', ''Blocking Features'']"

text \<open>
  The seven sections behind the Summary in their canonical order: the category, the
  heading and the renderer of each.
\<close>

definition section_table ::
  "xml_lib \<Rightarrow> element option \<Rightarrow> (string \<times> string \<times> (details \<Rightarrow> error + string)) list" where
  \<open>section_table lib xml_root =
     [(''Unsupported Features'', ''<h2 id="unsupported-features">Unsupported Features</h2>'',
       \<lambda>payload. generate_unsupported_features_section lib payload xml_root),
      (''Unsupported Flags'', ''<h2 id="unsupported-flags">Unsupported Flags</h2>'',
       \<lambda>payload. generate_unsupported_flags_section lib payload xml_root),
      (''Blocking Features'', ''<h2 id="blocking-features">Blocking Features</h2>'',
       \<lambda>payload. generate_blocking_features_section lib payload xml_root),
      (''Configuration Summary'', ''<h2 id="config-summary">Configuration Summary</h2>'',
       generate_config_summary_section),
      (''Templates'', ''<h2 id="templates">Templates</h2>'',
       generate_templates_section),
      (''Template-stacks'', ''<h2 id="template-stacks">Template Stacks</h2>'',
       \<lambda>payload. if truthy payload then generate_templates_section payload
                 else Inr ''<p>No template stack details available.</p>''),
      (''Device Groups'', ''<h2 id="device-groups">Device Groups</h2>'',
       generate_device_groups_section)]\<close>

text \<open>
  The block of one section: its heading and the rendering of the payload when the
  category is present, nothing otherwise. The block of the Summary. \<open>collect_blocks\<close>
  puts blocks one behind the other, unless one of them raises.
\<close>

definition section_block ::
  "doc_section list \<Rightarrow> string \<times> string \<times> (details \<Rightarrow> error + string) \<Rightarrow> error + string" where
  "section_block data entry =
     (case entry of (c, heading, render) \<Rightarrow>
        if present c data
        then and_then (render (last_payload c data)) (\<lambda>body. Inr (heading @ body))
        else Inr [])"

definition summary_block :: "doc_section list \<Rightarrow> error + string" where
  \<open>summary_block data =
     (if summary_due data
      then and_then (generate_summary_table data)
             (\<lambda>table. Inr (''        <h2 id="summary">Summary of Issues</h2>\<newline>'' @ table))
      else Inr [])\<close>

fun collect_blocks :: "(error + string) list \<Rightarrow> error + string" where
  "collect_blocks [] = Inr []"
| "collect_blocks (b # bs) =
     and_then b (\<lambda>text. and_then (collect_blocks bs) (\<lambda>rest. Inr (text @ rest)))"

text \<open>The categories that the assembler renders.\<close>

definition rendered_category :: "string \<Rightarrow> bool" where
  "rendered_category c \<longleftrightarrow>
     c \<in> set [''Unsupported Features'', ''Unsupported Flags'', ''Blocking Features'',
              ''Configuration Summary'', ''Templates'', ''Template-stacks'', ''Device Groups'']"


section \<open>Sample inputs\<close>

text \<open>A library whose serialisation is the tag of the element, and a small tree.\<close>

definition tag_lib :: xml_lib where
  "tag_lib = \<lparr>tostring = (\<lambda>e. Some (tag e)), reindent = (\<lambda>s. Some s)\<rparr>"

definition sample_tree :: element where
  "sample_tree =
     Element ''config'' []
       [Element ''devices'' []
          [Element ''entry'' [(''name'', ''a'')] [],
           Element ''entry'' [(''name'', ''b'')] [Element ''vsys'' [] []],
           Element ''entry'' [(''name'', ''b'')] []]]"

text \<open>Findings used as concrete inputs.\<close>

definition finding_r1 :: finding where
  "finding_r1 =
     \<lparr>rule_id = Some ''R1'', description = Some ''a < b'', feature = None, item_tag = None,
      group = None, count = Some 3, location = None, referenced_in = None,
      referenced_in_with_xpaths = None\<rparr>"

definition finding_r2 :: finding where
  "finding_r2 =
     \<lparr>rule_id = Some ''R2'', description = None, feature = Some ''qos'', item_tag = None,
      group = None, count = None, location = Some ''shared'', referenced_in = None,
      referenced_in_with_xpaths = None\<rparr>"

text \<open>Documents used as concrete inputs, and a clock reading.\<close>

definition sample_now :: string where
  "sample_now = ''2025-01-01 00:00:00''"

definition doc_unknown :: "doc_section list" where
  "doc_unknown = [\<lparr>category = Some ''Other'', details = Some (Records [finding_r1])\<rparr>]"

definition doc_repeated :: "doc_section list" where
  "doc_repeated =
     [\<lparr>category = Some ''Unsupported Features'', details = Some (Records [finding_r1])\<rparr>,
      \<lparr>category = Some ''Unsupported Features'', details = Some (Records [])\<rparr>]"

definition doc_empty_sections :: "doc_section list" where
  "doc_empty_sections =
     [\<lparr>category = Some ''Templates'', details = Some (Keyed [])\<rparr>,
      \<lparr>category = Some ''Unsupported Features'', details = None\<rparr>]"

definition doc_flags :: "doc_section list" where
  "doc_flags = [\<lparr>category = Some ''Unsupported Flags'', details = Some (Records [finding_r1])\<rparr>]"


definition doc_twice :: "doc_section list" where
  "doc_twice =
     [\<lparr>category = Some ''Unsupported Features'', details = Some (Records [finding_r1])\<rparr>,
      \<lparr>category = Some ''Unsupported Features'', details = Some (Records [finding_r2])\<rparr>]"

section \<open>Facts about the string functions\<close>

lemma split_on_not_Nil: "split_on sep s \<noteq> []"
  by (induction s) (auto split: list.splits)

lemma join_split_on: "join [sep] (split_on sep s) = s"
proof (induction s)
  case Nil show ?case by simp
next
  case (Cons c cs)
  obtain p ps where e: "split_on sep cs = p # ps"
    using split_on_not_Nil[of sep cs] by (cases "split_on sep cs") auto
  show ?case using Cons e by (cases ps) auto
qed

lemma format_part_raw:
  "\<not> contains ''entry[@name='' part \<or> re_search part = None \<Longrightarrow> format_part part = part"
  by (auto simp: format_part_def)


section \<open>The path formatter on bare paths\<close>

text \<open>
  Claim C7. When no segment of the stripped path yields a match of the predicate
  pattern (the segment is bare, or it contains \<^verbatim>\<open>entry[@name=\<close> but the pattern fails and
  the raw text is kept), the formatter returns the stripped path split on slashes,
  rejoined with slashes and prefixed with one slash, which is the stripped path behind
  one slash. The formatter is a total function: it has no failing branch.
\<close>

theorem format_xpath_bare_identity:
  assumes "\<forall>part \<in> set (split_on CHR ''/'' (strip CHR ''/'' xpath)).
             \<not> contains ''entry[@name='' part \<or> re_search part = None"
  shows "format_xpath xpath = ''/'' @ join ''/'' (split_on CHR ''/'' (strip CHR ''/'' xpath)) \<and>
         format_xpath xpath = ''/'' @ strip CHR ''/'' xpath"
proof -
  have "map format_part (split_on CHR ''/'' (strip CHR ''/'' xpath)) = split_on CHR ''/'' (strip CHR ''/'' xpath)"
    using assms by (intro map_idI) (simp add: format_part_raw)
  then show ?thesis by (simp add: format_xpath_def Let_def join_split_on)
qed

theorem format_xpath_bare_identity_witness:
  "split_on CHR ''/'' (strip CHR ''/'' ''//devices/entry[@name=x/vsys/'') =
     [''devices'', ''entry[@name=x'', ''vsys''] \<and>
   contains ''entry[@name='' ''devices'' = False \<and>
   re_search ''entry[@name=x'' = None \<and>
   contains ''entry[@name='' ''vsys'' = False \<and>
   format_xpath ''//devices/entry[@name=x/vsys/'' = ''/devices/entry[@name=x/vsys''"
proof -
  have h: "\<forall>part \<in> set (split_on CHR ''/'' (strip CHR ''/'' ''//devices/entry[@name=x/vsys/'')).
      \<not> contains ''entry[@name='' part \<or> re_search part = None"
    by (simp add: strip_def match_here_def)
  show ?thesis using format_xpath_bare_identity[OF h] by (simp add: strip_def match_here_def)
qed

section \<open>The resolver agrees with its description\<close>

lemma first_child_iff: "first_child P cs = Some c \<longleftrightarrow> first_match P cs c"
proof (induction cs)
  case Nil show ?case by (simp add: first_match_def)
next
  case (Cons x xs)
  show ?case
  proof (cases "P x")
    case True
    have "first_match P (x # xs) c \<longleftrightarrow> c = x"
    proof
      assume "first_match P (x # xs) c"
      then obtain i where i: "i < length (x # xs)" "(x # xs) ! i = c" "\<forall>j<i. \<not> P ((x # xs) ! j)"
        unfolding first_match_def by blast
      have "i = 0"
      proof (rule ccontr)
        assume "i \<noteq> 0"
        then have "0 < i" by simp
        with i(3) have "\<not> P ((x # xs) ! 0)" by blast
        then show False using True by simp
      qed
      then show "c = x" using i(2) by simp
    next
      assume "c = x"
      then show "first_match P (x # xs) c" unfolding first_match_def using True
        by (intro exI[of _ 0]) simp
    qed
    then show ?thesis using True by auto
  next
    case False
    have "first_match P (x # xs) c \<longleftrightarrow> first_match P xs c"
    proof
      assume "first_match P (x # xs) c"
      then obtain i where i: "i < length (x # xs)" "(x # xs) ! i = c" "P c" "\<forall>j<i. \<not> P ((x # xs) ! j)"
        unfolding first_match_def by blast
      have "i \<noteq> 0" using i(2,3) False by (cases i) auto
      then obtain k where k: "i = Suc k" by (cases i) auto
      have "k < length xs" "xs ! k = c" using i(1,2) k by auto
      moreover have "\<forall>j<k. \<not> P (xs ! j)"
      proof (intro allI impI)
        fix j assume "j < k"
        then have "Suc j < i" using k by simp
        with i(4) have "\<not> P ((x # xs) ! Suc j)" by blast
        then show "\<not> P (xs ! j)" by simp
      qed
      ultimately show "first_match P xs c" unfolding first_match_def using i(3) by blast
    next
      assume "first_match P xs c"
      then obtain k where k: "k < length xs" "xs ! k = c" "P c" "\<forall>j<k. \<not> P (xs ! j)"
        unfolding first_match_def by blast
      have "\<forall>j<Suc k. \<not> P ((x # xs) ! j)"
      proof (intro allI impI)
        fix j assume "j < Suc k"
        then show "\<not> P ((x # xs) ! j)" using False k(4) by (cases j) auto
      qed
      then show "first_match P (x # xs) c" unfolding first_match_def using k
        by (intro exI[of _ "Suc k"]) simp
    qed
    then show ?thesis using False Cons by simp
  qed
qed

lemma match_here_iff:
  \<open>match_here s = Some v \<longleftrightarrow>
     (\<exists>post. s = ''entry[@name="'' @ v @ ''"]'' @ post) \<and> v \<noteq> [] \<and> CHR ''"'' \<notin> set v\<close>
proof
  assume a: "match_here s = Some v"
  then have p: \<open>prefix ''entry[@name="'' s\<close> by (auto simp: match_here_def split: if_splits)
  then obtain rest where s: \<open>s = ''entry[@name="'' @ rest\<close> by (auto simp: prefix_def)
  have d: "drop 13 s = rest" using s by simp
  from a p d have v: \<open>v = takeWhile (\<lambda>c. c \<noteq> CHR ''"'') rest\<close> and ne: "v \<noteq> []"
    and q: \<open>prefix ''"]'' (drop (length v) rest)\<close>
    by (auto simp: match_here_def Let_def split: if_splits)
  from q obtain post where post: \<open>drop (length v) rest = ''"]'' @ post\<close> by (auto simp: prefix_def)
  have "rest = take (length v) rest @ drop (length v) rest" by simp
  also have "take (length v) rest = v" unfolding v by (simp add: takeWhile_eq_take[symmetric])
  finally have \<open>rest = v @ ''"]'' @ post\<close> using post by simp
  moreover have \<open>CHR ''"'' \<notin> set v\<close> unfolding v by (auto dest: set_takeWhileD)
  ultimately show \<open>(\<exists>post. s = ''entry[@name="'' @ v @ ''"]'' @ post) \<and> v \<noteq> [] \<and> CHR ''"'' \<notin> set v\<close>
    using s ne by auto
next
  assume \<open>(\<exists>post. s = ''entry[@name="'' @ v @ ''"]'' @ post) \<and> v \<noteq> [] \<and> CHR ''"'' \<notin> set v\<close>
  then obtain post where s: \<open>s = ''entry[@name="'' @ v @ ''"]'' @ post\<close>
    and ne: "v \<noteq> []" and nq: \<open>CHR ''"'' \<notin> set v\<close> by blast
  have tw: \<open>takeWhile (\<lambda>c. c \<noteq> CHR ''"'') (v @ ''"]'' @ post) = v\<close>
    using nq by (induction v) auto
  show "match_here s = Some v"
    unfolding match_here_def s using tw ne by (simp add: Let_def)
qed

lemma contains_iff: "contains n s \<longleftrightarrow> (\<exists>pre post. s = pre @ n @ post)"
proof (induction s)
  case Nil show ?case by auto
next
  case (Cons c cs)
  show ?case
  proof
    assume "contains n (c # cs)"
    then consider "prefix n (c # cs)" | "contains n cs" by auto
    then show "\<exists>pre post. c # cs = pre @ n @ post"
    proof cases
      case 1
      then obtain post where "c # cs = n @ post" by (auto simp: prefix_def)
      then have "c # cs = [] @ n @ post" by simp
      then show ?thesis by blast
    next
      case 2
      then obtain pre post where "cs = pre @ n @ post" using Cons by blast
      then have "c # cs = (c # pre) @ n @ post" by simp
      then show ?thesis by blast
    qed
  next
    assume "\<exists>pre post. c # cs = pre @ n @ post"
    then obtain pre post where e: "c # cs = pre @ n @ post" by blast
    show "contains n (c # cs)"
    proof (cases pre)
      case Nil
      then have "prefix n (c # cs)" using e by (auto simp: prefix_def)
      then show ?thesis by simp
    next
      case (Cons a pre')
      then have "cs = pre' @ n @ post" using e by simp
      then show ?thesis using Cons.IH by auto
    qed
  qed
qed

lemma match_here_predicate_at: "match_here s = Some v \<longleftrightarrow> predicate_at s [] v"
  by (simp add: match_here_iff predicate_at_def)

lemma predicate_at_Cons: "predicate_at (c # cs) (c' # pre) v \<longleftrightarrow> c = c' \<and> predicate_at cs pre v"
  by (auto simp: predicate_at_def)

lemma predicate_at_Nil: "\<not> predicate_at [] pre v"
  by (auto simp: predicate_at_def)

lemma re_search_iff: "re_search s = Some v \<longleftrightarrow> name_predicate s v"
proof (induction s)
  case Nil
  show ?case by (simp add: match_here_predicate_at name_predicate_def predicate_at_Nil)
next
  case (Cons c cs)
  show ?case
  proof (cases "match_here (c # cs)")
    case (Some v0)
    then have p0: "predicate_at (c # cs) [] v0" by (simp add: match_here_predicate_at)
    have "name_predicate (c # cs) v \<longleftrightarrow> v = v0"
    proof
      assume "name_predicate (c # cs) v"
      then obtain pre where pre: "predicate_at (c # cs) pre v"
        "\<forall>pre' v'. predicate_at (c # cs) pre' v' \<longrightarrow> length pre \<le> length pre'"
        unfolding name_predicate_def by blast
      from pre(2) p0 have "length pre \<le> length ([]::string)" by blast
      then have "pre = []" by simp
      with pre(1) have "match_here (c # cs) = Some v" by (simp add: match_here_predicate_at)
      with Some show "v = v0" by simp
    next
      assume "v = v0"
      then show "name_predicate (c # cs) v" unfolding name_predicate_def using p0
        by (intro exI[of _ "[]"]) simp
    qed
    then show ?thesis using Some by auto
  next
    case None
    then have no0: "\<And>v'. \<not> predicate_at (c # cs) [] v'"
      by (simp add: match_here_predicate_at[symmetric])
    have "name_predicate (c # cs) v \<longleftrightarrow> name_predicate cs v"
    proof
      assume "name_predicate (c # cs) v"
      then obtain pre where pre: "predicate_at (c # cs) pre v"
        "\<forall>pre' v'. predicate_at (c # cs) pre' v' \<longrightarrow> length pre \<le> length pre'"
        unfolding name_predicate_def by blast
      from pre(1) no0 obtain c' p where p: "pre = c' # p" by (cases pre) auto
      then have 1: "predicate_at cs p v" using pre(1) by (auto simp: predicate_at_Cons)
      have "\<forall>pre' v'. predicate_at cs pre' v' \<longrightarrow> length p \<le> length pre'"
      proof (intro allI impI)
        fix pre' v' assume "predicate_at cs pre' v'"
        then have "predicate_at (c # cs) (c # pre') v'" by (simp add: predicate_at_Cons)
        with pre(2) have "length pre \<le> length (c # pre')" by blast
        then show "length p \<le> length pre'" using p by simp
      qed
      with 1 show "name_predicate cs v" unfolding name_predicate_def by blast
    next
      assume "name_predicate cs v"
      then obtain p where p: "predicate_at cs p v"
        "\<forall>pre' v'. predicate_at cs pre' v' \<longrightarrow> length p \<le> length pre'"
        unfolding name_predicate_def by blast
      have 1: "predicate_at (c # cs) (c # p) v" using p(1) by (simp add: predicate_at_Cons)
      have "\<forall>pre' v'. predicate_at (c # cs) pre' v' \<longrightarrow> length (c # p) \<le> length pre'"
      proof (intro allI impI)
        fix pre' v' assume a: "predicate_at (c # cs) pre' v'"
        with no0 obtain c' q where q: "pre' = c' # q" by (cases pre') auto
        with a have "predicate_at cs q v'" by (simp add: predicate_at_Cons)
        with p(2) have "length p \<le> length q" by blast
        then show "length (c # p) \<le> length pre'" using q by simp
      qed
      with 1 show "name_predicate (c # cs) v" unfolding name_predicate_def by blast
    qed
    then show ?thesis using None Cons by simp
  qed
qed

lemma bare_segment_iff: "bare_segment seg \<longleftrightarrow> \<not> contains ''entry[@name='' seg"
  unfolding bare_segment_def contains_iff by simp

lemma name_predicate_not_bare: "name_predicate seg v \<Longrightarrow> \<not> bare_segment seg"
proof -
  assume "name_predicate seg v"
  then obtain pre post where \<open>seg = pre @ ''entry[@name="'' @ v @ ''"]'' @ post\<close>
    unfolding name_predicate_def predicate_at_def by blast
  then have \<open>seg = pre @ ''entry[@name='' @ (''"'' @ v @ ''"]'' @ post)\<close> by simp
  then show ?thesis unfolding bare_segment_def by blast
qed

lemma walk_Cons: "walk current (part # parts) =
    (case walk current [part] of None \<Rightarrow> None | Some child \<Rightarrow> walk child parts)"
  by (simp split: option.splits)

lemma walk_single_iff: "walk node [seg] = Some child \<longleftrightarrow> segment_child node seg child"
proof (cases "contains ''entry[@name='' seg")
  case True
  then have nb: "\<not> bare_segment seg" by (simp add: bare_segment_iff)
  show ?thesis
  proof (cases "re_search seg")
    case None
    then have "\<And>v. \<not> name_predicate seg v" by (simp add: re_search_iff[symmetric])
    then show ?thesis using True None nb by (simp add: segment_child_def)
  next
    case (Some v)
    then have "\<And>v'. name_predicate seg v' \<longleftrightarrow> v' = v" by (auto simp: re_search_iff[symmetric])
    then show ?thesis using True Some nb
      by (auto simp: segment_child_def first_child_iff[symmetric] split: option.splits)
  qed
next
  case False
  then have b: "bare_segment seg" by (simp add: bare_segment_iff)
  then have "\<And>v. \<not> name_predicate seg v" using name_predicate_not_bare by blast
  then show ?thesis using False b
    by (simp add: segment_child_def first_child_iff[symmetric] split: option.splits)
qed

declare walk.simps(2) [simp del]

lemma walk_iff: "walk node segs = Some target \<longleftrightarrow> resolves node segs target"
proof (induction segs arbitrary: node)
  case Nil
  show ?case by (auto intro: resolves.intros elim: resolves.cases)
next
  case (Cons seg segs)
  show ?case
  proof
    assume "walk node (seg # segs) = Some target"
    then obtain child where "walk node [seg] = Some child" "walk child segs = Some target"
      by (subst (asm) walk_Cons) (auto split: option.splits)
    then show "resolves node (seg # segs) target"
      using Cons.IH by (auto intro: resolves_step simp: walk_single_iff)
  next
    assume "resolves node (seg # segs) target"
    then obtain child where "segment_child node seg child" "resolves child segs target"
      by (auto elim: resolves.cases)
    then have "walk node [seg] = Some child" "walk child segs = Some target"
      using Cons.IH by (simp_all add: walk_single_iff)
    then show "walk node (seg # segs) = Some target"
      by (subst walk_Cons) simp
  qed
qed

lemma walk_append: "walk node (xs @ ys) =
    (case walk node xs of None \<Rightarrow> None | Some n \<Rightarrow> walk n ys)"
proof (induction xs arbitrary: node)
  case Nil show ?case by simp
next
  case (Cons x xs)
  show ?case
    by (simp only: append_Cons walk_Cons[of node x "xs @ ys"] walk_Cons[of node x xs] Cons.IH)
       (simp split: option.splits)
qed

lemma walk_malformed: "\<exists>seg \<in> set segs. malformed_segment seg \<Longrightarrow> walk node segs = None"
proof (induction segs arbitrary: node)
  case Nil then show ?case by simp
next
  case (Cons seg segs)
  show ?case
  proof (cases "malformed_segment seg")
    case True
    then have "contains ''entry[@name='' seg" "re_search seg = None"
      using re_search_iff[of seg] by (auto simp: malformed_segment_def bare_segment_iff)
    then show ?thesis by (simp add: walk.simps(2))
  next
    case False
    then have "\<exists>s \<in> set segs. malformed_segment s" using Cons.prems by auto
    then have "\<And>n. walk n segs = None" using Cons.IH by blast
    then show ?thesis by (subst walk_Cons) (simp split: option.splits)
  qed
qed

text \<open>
  Claim C1. Without a tree the resolver returns \<open>None\<close>. With a tree it returns a
  serialisation exactly when every segment of the path, in order from the root, selects
  the first matching child in document order (tag \<^verbatim>\<open>entry\<close> and the extracted name for a
  name-predicate segment, the segment text as tag for a bare segment), and then it
  serialises the node reached by the last segment, never an intermediate one. A
  malformed segment anywhere, or a segment without a matching child, gives \<open>None\<close>;
  the function is total, so nothing is raised.
\<close>

theorem extract_xml_from_xpath_resolves:
  "extract_xml_from_xpath lib None xpath = None \<and>
   (extract_xml_from_xpath lib (Some root) xpath = Some out \<longleftrightarrow>
      (\<exists>target. resolves root (path_parts xpath) target \<and> tostring lib target = Some out)) \<and>
   ((\<exists>seg \<in> set (path_parts xpath). malformed_segment seg) \<longrightarrow>
      extract_xml_from_xpath lib (Some root) xpath = None) \<and>
   (\<forall>before seg rest node.
      path_parts xpath = before @ seg # rest \<and> resolves root before node \<and>
      (\<forall>child. \<not> segment_child node seg child) \<longrightarrow>
      extract_xml_from_xpath lib (Some root) xpath = None)"
proof (intro conjI allI impI)
  show "extract_xml_from_xpath lib None xpath = None"
    by (simp add: extract_xml_from_xpath_def)
next
  show "extract_xml_from_xpath lib (Some root) xpath = Some out \<longleftrightarrow>
      (\<exists>target. resolves root (path_parts xpath) target \<and> tostring lib target = Some out)"
    by (auto simp: extract_xml_from_xpath_def walk_iff[symmetric] split: option.splits)
next
  assume "\<exists>seg \<in> set (path_parts xpath). malformed_segment seg"
  then have "walk root (path_parts xpath) = None" by (rule walk_malformed)
  then show "extract_xml_from_xpath lib (Some root) xpath = None"
    by (simp add: extract_xml_from_xpath_def)
next
  fix before seg rest node
  assume a: "path_parts xpath = before @ seg # rest \<and> resolves root before node \<and>
      (\<forall>child. \<not> segment_child node seg child)"
  then have "walk root before = Some node" by (simp add: walk_iff)
  moreover have "walk node [seg] = None"
    using a walk_single_iff[of node seg] by (cases "walk node [seg]") auto
  then have "walk node (seg # rest) = None"
    by (subst walk_Cons) simp
  ultimately have "walk root (path_parts xpath) = None"
    using a by (simp add: walk_append)
  then show "extract_xml_from_xpath lib (Some root) xpath = None"
    by (simp add: extract_xml_from_xpath_def)
qed

theorem extract_xml_from_xpath_resolves_witness:
  \<open>(\<exists>target. resolves sample_tree (path_parts ''/devices/entry[@name="b"]/vsys'') target \<and>
       tostring tag_lib target = Some ''vsys'') \<and>
    (\<exists>seg \<in> set (path_parts ''devices/entry[@name=b]'').  malformed_segment seg) \<and>
    extract_xml_from_xpath tag_lib (Some sample_tree) ''devices/entry[@name=b]'' = None\<close>
proof -
  have e: \<open>extract_xml_from_xpath tag_lib (Some sample_tree) ''/devices/entry[@name="b"]/vsys'' = Some ''vsys''\<close>
    by (simp add: extract_xml_from_xpath_def path_parts_def sample_tree_def tag_lib_def
        match_here_def element_get_def walk.simps(2))
  have p: \<open>path_parts ''devices/entry[@name=b]'' = [''devices'', ''entry[@name=b]'']\<close>
    by (simp add: path_parts_def)
  have "contains ''entry[@name='' ''entry[@name=b]''" by simp
  moreover have "re_search ''entry[@name=b]'' = None" by (simp add: match_here_def)
  ultimately have m: "malformed_segment ''entry[@name=b]''"
    using re_search_iff[of "''entry[@name=b]''"] by (auto simp: malformed_segment_def bare_segment_iff)
  have m': \<open>\<exists>seg \<in> set (path_parts ''devices/entry[@name=b]''). malformed_segment seg\<close>
    using m p by simp
  show ?thesis
    using e m' extract_xml_from_xpath_resolves[of tag_lib \<open>''/devices/entry[@name="b"]/vsys''\<close> sample_tree "''vsys''"]
      extract_xml_from_xpath_resolves[of tag_lib \<open>''devices/entry[@name=b]''\<close> sample_tree]
    by blast
qed

section \<open>The rows of the aggregator\<close>

lemma make_summary_item_normalized: "make_summary_item c = normalized_row c"
  by (rule ext) (simp add: make_summary_item_def normalized_row_def get_or_def)

lemma flat_category_set:
  "c \<in> set [''Unsupported Features'', ''Unsupported Flags'', ''Blocking Features''] \<longleftrightarrow>
     flat_category c"
  by (auto simp: flat_category_def)

lemma collect_items_step:
  "collect_items (sec # rest) acc =
     (if flat_category (get_category sec '''') then
        and_then (records_of (get_details sec))
          (\<lambda>items. collect_items rest (acc @ map (normalized_row (get_category sec '''')) items))
      else collect_items rest acc)"
  by (simp only: collect_items.simps Let_def flat_category_set make_summary_item_normalized)

lemma collect_items_rows:
  "collect_items data acc =
     (if list_all (\<lambda>sec. flat_category (get_category sec '''') \<longrightarrow> readable_records sec) data
      then Inr (acc @ concat (map section_rows data))
      else Inl AttributeError)"
proof (induction data arbitrary: acc)
  case Nil
  show ?case by simp
next
  case (Cons sec rest)
  show ?case
  proof (cases "flat_category (get_category sec '''')")
    case False
    then have "section_rows sec = []" by (simp add: section_rows_def)
    then show ?thesis using False Cons.IH[of acc]
      by (simp only: collect_items_step) simp
  next
    case True
    show ?thesis
    proof (cases "records_of (get_details sec)")
      case (Inl e)
      then have "\<not> readable_records sec" by (simp add: readable_records_def)
      moreover have "e = AttributeError" by (cases e) simp
      ultimately show ?thesis using True Inl
        by (simp only: collect_items_step) simp
    next
      case (Inr items)
      then have r: "readable_records sec" by (simp add: readable_records_def)
      have rows: "section_rows sec = map (normalized_row (get_category sec '''')) items"
        using True Inr by (simp add: section_rows_def section_records_def)
      show ?thesis
        using True Inr r rows
          Cons.IH[of "acc @ map (normalized_row (get_category sec '''')) items"]
        by (simp only: collect_items_step) simp
    qed
  qed
qed

text \<open>
  Claim C6. The aggregator returns one row per record of the sections of the three flat
  categories and of no other section; a row is the category with the rule identifier,
  description, feature, tag, group, count and location of the record, \<^verbatim>\<open>N/A\<close> standing
  for a missing field and zero for a missing count; the rows come in section order and,
  within a section, in record order. (A flat section whose payload is a non-empty keyed
  map raises instead.)
\<close>

theorem summary_items_rows:
  "summary_items data =
     (if list_all (\<lambda>sec. flat_category (get_category sec '''') \<longrightarrow> readable_records sec) data
      then Inr (concat (map section_rows data))
      else Inl AttributeError)"
  unfolding summary_items_def by (simp add: collect_items_rows)

theorem summary_items_rows_witness:
  "summary_items
     [\<lparr>category = Some ''Unsupported Flags'', details = Some (Records [finding_r1, finding_r2])\<rparr>,
      \<lparr>category = Some ''Templates'', details = Some (Keyed [(''t'', \<lparr>unsupported_drop = None, supported_drop = None\<rparr>)])\<rparr>,
      \<lparr>category = Some ''Blocking Features'', details = Some (Records [finding_r2])\<rparr>] =
   Inr [\<lparr>row_category = ''Unsupported Flags'', row_rule_id = ''R1'', row_description = ''a < b'',
         row_feature = ''N/A'', row_tag = ''N/A'', row_group = ''N/A'', row_count = 3,
         row_location = ''N/A''\<rparr>,
        \<lparr>row_category = ''Unsupported Flags'', row_rule_id = ''R2'', row_description = ''N/A'',
         row_feature = ''qos'', row_tag = ''N/A'', row_group = ''N/A'', row_count = 0,
         row_location = ''shared''\<rparr>,
        \<lparr>row_category = ''Blocking Features'', row_rule_id = ''R2'', row_description = ''N/A'',
         row_feature = ''qos'', row_tag = ''N/A'', row_group = ''N/A'', row_count = 0,
         row_location = ''shared''\<rparr>]"
  using summary_items_rows[of
     "[\<lparr>category = Some ''Unsupported Flags'', details = Some (Records [finding_r1, finding_r2])\<rparr>,
      \<lparr>category = Some ''Templates'', details = Some (Keyed [(''t'', \<lparr>unsupported_drop = None, supported_drop = None\<rparr>)])\<rparr>,
      \<lparr>category = Some ''Blocking Features'', details = Some (Records [finding_r2])\<rparr>]"]
  by (simp add: flat_category_def readable_records_def get_category_def get_details_def
      section_rows_def section_records_def normalized_row_def finding_r1_def finding_r2_def)

section \<open>The empty-state messages of the flat renderers\<close>

text \<open>
  Claim C3, as amended. On an empty payload each of the three flat renderers returns
  its own message: the features renderer and the flags renderer a neutral one of class
  \<^verbatim>\<open>no-issues\<close>, each with its own wording, the blocking renderer one of class
  \<^verbatim>\<open>success\<close>. On a non-empty payload the flags and blocking renderers return what the
  features renderer returns.
\<close>

theorem flat_sections_empty_and_nonempty:
  \<open>(\<not> truthy payload \<longrightarrow>
      generate_unsupported_features_section lib payload xml_root =
        Inr ''<p class="no-issues">No unsupported features found.</p>'' \<and>
      generate_unsupported_flags_section lib payload xml_root =
        Inr ''<p class="no-issues">No unsupported flags found.</p>'' \<and>
      generate_blocking_features_section lib payload xml_root =
        Inr ''<p class="success">No blocking features found.</p>'') \<and>
   (truthy payload \<longrightarrow>
      generate_unsupported_flags_section lib payload xml_root =
        generate_unsupported_features_section lib payload xml_root \<and>
      generate_blocking_features_section lib payload xml_root =
        generate_unsupported_features_section lib payload xml_root)\<close>
  by (simp add: generate_unsupported_features_section_def generate_unsupported_flags_section_def
      generate_blocking_features_section_def)

theorem flat_sections_empty_and_nonempty_witness:
  \<open>generate_unsupported_flags_section tag_lib (Records []) None =
      Inr ''<p class="no-issues">No unsupported flags found.</p>'' \<and>
    generate_blocking_features_section tag_lib (Records []) None =
      Inr ''<p class="success">No blocking features found.</p>'' \<and>
    generate_unsupported_features_section tag_lib (Records []) None =
      Inr ''<p class="no-issues">No unsupported features found.</p>'' \<and>
    generate_blocking_features_section tag_lib (Records [finding_r1]) None =
      generate_unsupported_features_section tag_lib (Records [finding_r1]) None \<and>
    generate_unsupported_flags_section tag_lib (Records [finding_r1]) None =
      generate_unsupported_features_section tag_lib (Records [finding_r1]) None\<close>
  using flat_sections_empty_and_nonempty[of "Records []" tag_lib None]
    flat_sections_empty_and_nonempty[of "Records [finding_r1]" tag_lib None]
  by simp

text \<open>
  The flags renderer does have a message of its own: on the empty list it differs from
  the features renderer.
\<close>

theorem flags_custom_message_counterexample:
  \<open>generate_unsupported_flags_section tag_lib (Records []) None =
      Inr ''<p class="no-issues">No unsupported flags found.</p>'' \<and>
    generate_unsupported_flags_section tag_lib (Records []) None \<noteq>
      generate_unsupported_features_section tag_lib (Records []) None\<close>
  by (simp add: generate_unsupported_features_section_def generate_unsupported_flags_section_def)

section \<open>The report as a sequence of blocks\<close>

lemma extract_sections_snoc:
  "extract_sections (data @ [sec]) =
     (extract_sections data)(get_category sec ''Unknown'' \<mapsto> get_details sec)"
  by (simp add: extract_sections_def)

lemma extract_sections_last:
  "extract_sections data c = (if present c data then Some (last_payload c data) else None)"
proof (induction data rule: rev_induct)
  case Nil
  show ?case by (simp add: extract_sections_def present_def)
next
  case (snoc sec data)
  show ?case
    using snoc by (simp add: extract_sections_snoc present_def last_payload_def)
qed

lemma section_truthy_last:
  "section_truthy (extract_sections data) c \<longleftrightarrow> present c data \<and> truthy (last_payload c data)"
  by (simp add: section_truthy_def extract_sections_last)

lemma any_flat_summary_due: "any_flat (extract_sections data) = summary_due data"
  by (simp add: any_flat_def summary_due_def section_truthy_last)

lemma and_then_assoc: "and_then (and_then m f) g = and_then m (\<lambda>x. and_then (f x) g)"
  by (cases m) simp_all

lemma block_step:
  "(case extract_sections data c of
      None \<Rightarrow> Inr html
    | Some payload \<Rightarrow> and_then (render payload) (\<lambda>body. Inr (html @ heading @ body))) =
   and_then (section_block data (c, heading, render)) (\<lambda>s. Inr (html @ s))"
  by (cases "render (last_payload c data)")
     (simp_all add: extract_sections_last section_block_def)

lemma summary_step:
  \<open>(if any_flat (extract_sections data)
     then and_then (generate_summary_table data)
            (\<lambda>table. Inr (html @ ''        <h2 id="summary">Summary of Issues</h2>\<newline>'' @ table))
     else Inr html) =
   and_then (summary_block data) (\<lambda>s. Inr (html @ s))\<close>
  by (cases "generate_summary_table data")
     (simp_all add: any_flat_summary_due summary_block_def)

lemma report_blocks:
  "generate_html_report lib style now data xml_root =
     and_then (collect_blocks (summary_block data # map (section_block data) (section_table lib xml_root)))
       (\<lambda>body. Inr (page_head style now @
                     concat (map toc_link (toc_entries (extract_sections data))) @
                     toc_close @ body @ page_foot))"
  unfolding generate_html_report_def Let_def
  apply (simp only: block_step summary_step)
  apply (simp only: section_table_def list.map collect_blocks.simps
        and_then_assoc and_then.simps append_assoc append_Nil2)
  done

lemma section_table_categories:
  "map fst (section_table lib xml_root) =
     [''Unsupported Features'', ''Unsupported Flags'', ''Blocking Features'',
      ''Configuration Summary'', ''Templates'', ''Template-stacks'', ''Device Groups'']"
  by (simp add: section_table_def)

lemma section_table_empty_payload:
  "(c, heading, render) \<in> set (section_table lib xml_root) \<Longrightarrow> \<not> truthy payload \<Longrightarrow>
     \<not> isl (render payload) \<and> heading \<noteq> []"
  by (auto simp: section_table_def generate_unsupported_features_section_def
      generate_unsupported_flags_section_def generate_blocking_features_section_def
      generate_config_summary_section_def generate_templates_section_def
      generate_device_groups_section_def)

lemma dom_extract_sections: "c \<in> dom (extract_sections data) \<longleftrightarrow> present c data"
  by (simp add: dom_def extract_sections_last)

lemma toc_entries_doc_empty_sections: "toc_entries (extract_sections doc_empty_sections) = []"
  by (simp add: toc_entries_def any_flat_def section_truthy_last doc_empty_sections_def
      present_def last_payload_def get_category_def get_details_def dom_extract_sections)

text \<open>
  Claim C4. The report is the page head, the table of contents, then the block of the
  Summary and the blocks of Unsupported Features, Unsupported Flags, Blocking Features,
  Configuration Summary, Templates, Template Stacks and Device Groups in this order,
  then the page foot. The block of each of the seven sections is its heading followed
  by the rendering of the payload when a section of the input carries the category,
  also when that payload is empty, and it is empty when no section carries it.
\<close>

theorem report_sections_in_canonical_order:
  "generate_html_report lib style now data xml_root =
     and_then
       (collect_blocks (summary_block data # map (section_block data) (section_table lib xml_root)))
       (\<lambda>body. Inr (page_head style now @
                     concat (map toc_link (toc_entries (extract_sections data))) @
                     toc_close @ body @ page_foot)) \<and>
   map fst (section_table lib xml_root) =
     [''Unsupported Features'', ''Unsupported Flags'', ''Blocking Features'',
      ''Configuration Summary'', ''Templates'', ''Template-stacks'', ''Device Groups''] \<and>
   (\<forall>c heading render. (c, heading, render) \<in> set (section_table lib xml_root) \<longrightarrow>
      heading \<noteq> [] \<and>
      (present c data \<longleftrightarrow> (\<exists>sec \<in> set data. category sec = Some c)) \<and>
      (present c data \<longrightarrow>
         section_block data (c, heading, render) =
           and_then (render (last_payload c data)) (\<lambda>body. Inr (heading @ body))) \<and>
      (present c data \<and> \<not> truthy (last_payload c data) \<longrightarrow>
         (\<exists>message. section_block data (c, heading, render) = Inr (heading @ message))) \<and>
      (\<not> present c data \<longrightarrow> section_block data (c, heading, render) = Inr []))"
proof (intro conjI allI impI)
  show "generate_html_report lib style now data xml_root =
     and_then
       (collect_blocks (summary_block data # map (section_block data) (section_table lib xml_root)))
       (\<lambda>body. Inr (page_head style now @
                     concat (map toc_link (toc_entries (extract_sections data))) @
                     toc_close @ body @ page_foot))"
    by (rule report_blocks)
next
  show "map fst (section_table lib xml_root) =
     [''Unsupported Features'', ''Unsupported Flags'', ''Blocking Features'',
      ''Configuration Summary'', ''Templates'', ''Template-stacks'', ''Device Groups'']"
    by (rule section_table_categories)
next
  fix c heading render
  assume m: "(c, heading, render) \<in> set (section_table lib xml_root)"
  show "heading \<noteq> []" using m by (auto simp: section_table_def)
  have "c \<in> set (map fst (section_table lib xml_root))" using m by force
  then have cu: "c \<noteq> ''Unknown''" by (auto simp: section_table_categories)
  show "present c data \<longleftrightarrow> (\<exists>sec \<in> set data. category sec = Some c)"
    using cu by (auto simp: present_def list_ex_iff get_category_def split: option.splits)
  show "section_block data (c, heading, render) = Inr []" if "\<not> present c data"
    using that by (simp add: section_block_def)
  show "section_block data (c, heading, render) =
           and_then (render (last_payload c data)) (\<lambda>body. Inr (heading @ body))"
    if "present c data"
    using that by (simp add: section_block_def)
  show "\<exists>message. section_block data (c, heading, render) = Inr (heading @ message)"
    if "present c data \<and> \<not> truthy (last_payload c data)"
  proof -
    have "\<not> isl (render (last_payload c data))"
      using section_table_empty_payload[OF m] that by blast
    then obtain message where "render (last_payload c data) = Inr message"
      by (cases "render (last_payload c data)") auto
    then show ?thesis using that by (simp add: section_block_def)
  qed
qed

theorem report_sections_in_canonical_order_witness:
  \<open>generate_html_report tag_lib [] sample_now doc_empty_sections None =
     Inr (page_head [] sample_now @ toc_close @
          ''<h2 id="unsupported-features">Unsupported Features</h2>'' @
          ''<p class="no-issues">No unsupported features found.</p>'' @
          ''<h2 id="templates">Templates</h2>'' @
          ''<p>No template details available.</p>'' @
          page_foot)\<close>
proof -
  have b: \<open>collect_blocks (summary_block doc_empty_sections #
             map (section_block doc_empty_sections) (section_table tag_lib None)) =
           Inr (''<h2 id="unsupported-features">Unsupported Features</h2>'' @
                ''<p class="no-issues">No unsupported features found.</p>'' @
                ''<h2 id="templates">Templates</h2>'' @
                ''<p>No template details available.</p>'')\<close>
    by (simp add: summary_block_def summary_due_def section_table_def section_block_def
        doc_empty_sections_def present_def last_payload_def get_category_def get_details_def
        generate_unsupported_features_section_def generate_templates_section_def)
  have r: "generate_html_report tag_lib [] sample_now doc_empty_sections None =
     and_then
       (collect_blocks (summary_block doc_empty_sections #
          map (section_block doc_empty_sections) (section_table tag_lib None)))
       (\<lambda>body. Inr (page_head [] sample_now @
                     concat (map toc_link (toc_entries (extract_sections doc_empty_sections))) @
                     toc_close @ body @ page_foot))"
    by (rule conjunct1
        [OF report_sections_in_canonical_order[of tag_lib "[]" sample_now doc_empty_sections None]])
  show ?thesis unfolding r b toc_entries_doc_empty_sections by simp
qed

section \<open>The Summary of Issues\<close>

lemma summary_anchor_any_flat:
  "(''summary'', ''Summary of Issues'') \<in> set (toc_entries sections) \<longleftrightarrow> any_flat sections"
  by (simp add: toc_entries_def)

lemma summary_due_flat:
  "summary_due data \<longleftrightarrow> (\<exists>c. flat_category c \<and> present c data \<and> truthy (last_payload c data))"
  by (auto simp: summary_due_def flat_category_def)

lemma filter_distinct_key:
  "distinct (map f xs) \<Longrightarrow> x \<in> set xs \<Longrightarrow> filter (\<lambda>s. f s = f x) xs = [x]"
proof (induction xs)
  case Nil then show ?case by simp
next
  case (Cons a xs)
  show ?case
  proof (cases "a = x")
    case True
    have "f x \<notin> f ` set xs" using Cons.prems(1) True by simp
    then have "\<forall>s \<in> set xs. f s \<noteq> f x" by (metis imageI)
    then have "filter (\<lambda>s. f s = f x) xs = []" by (simp add: filter_empty_conv)
    then show ?thesis using True by simp
  next
    case False
    then have "x \<in> set xs" using Cons.prems(2) by simp
    moreover have "f a \<notin> f ` set xs" using Cons.prems(1) by simp
    then have "f a \<noteq> f x" using \<open>x \<in> set xs\<close> by (metis imageI)
    ultimately show ?thesis using Cons by simp
  qed
qed

lemma last_payload_distinct:
  "distinct (map (\<lambda>sec. get_category sec ''Unknown'') data) \<Longrightarrow> sec \<in> set data \<Longrightarrow>
     last_payload (get_category sec ''Unknown'') data = get_details sec"
  using filter_distinct_key[of "\<lambda>sec. get_category sec ''Unknown''" data sec]
  by (simp add: last_payload_def)

lemma summary_due_distinct:
  assumes "distinct (map (\<lambda>sec. get_category sec ''Unknown'') data)"
  shows "summary_due data \<longleftrightarrow>
     (\<exists>sec \<in> set data. flat_category (get_category sec ''Unknown'') \<and> truthy (get_details sec))"
proof
  assume "summary_due data"
  then obtain c where c: "flat_category c" "present c data" "truthy (last_payload c data)"
    by (auto simp: summary_due_flat)
  from c(2) obtain sec where sec: "sec \<in> set data" "get_category sec ''Unknown'' = c"
    by (auto simp: present_def list_ex_iff)
  then have "last_payload c data = get_details sec" using last_payload_distinct[OF assms sec(1)] by simp
  then show "\<exists>sec \<in> set data. flat_category (get_category sec ''Unknown'') \<and> truthy (get_details sec)"
    using c sec by auto
next
  assume "\<exists>sec \<in> set data. flat_category (get_category sec ''Unknown'') \<and> truthy (get_details sec)"
  then obtain sec where sec: "sec \<in> set data" "flat_category (get_category sec ''Unknown'')"
    "truthy (get_details sec)" by blast
  have "present (get_category sec ''Unknown'') data" using sec(1) by (auto simp: present_def list_ex_iff)
  moreover have "truthy (last_payload (get_category sec ''Unknown'') data)"
    using last_payload_distinct[OF assms sec(1)] sec(3) by simp
  ultimately show "summary_due data" using sec(2) by (auto simp: summary_due_flat)
qed

lemma report_with_summary:
  \<open>summary_due data \<Longrightarrow>
     generate_html_report lib style now data xml_root =
       and_then (generate_summary_table data)
         (\<lambda>table.
            and_then (collect_blocks (map (section_block data) (section_table lib xml_root)))
              (\<lambda>rest. Inr (page_head style now @
                            concat (map toc_link (toc_entries (extract_sections data))) @
                            toc_close @
                            ''        <h2 id="summary">Summary of Issues</h2>\<newline>'' @
                            table @ rest @ page_foot)))\<close>
  by (simp only: report_blocks collect_blocks.simps summary_block_def if_True
      and_then_assoc and_then.simps append_assoc)

lemma report_without_summary:
  "\<not> summary_due data \<Longrightarrow>
     generate_html_report lib style now data xml_root =
       and_then (collect_blocks (map (section_block data) (section_table lib xml_root)))
         (\<lambda>rest. Inr (page_head style now @
                       concat (map toc_link (toc_entries (extract_sections data))) @
                       toc_close @ rest @ page_foot))"
  by (simp only: report_blocks collect_blocks.simps summary_block_def if_False
      and_then_assoc and_then.simps append_assoc append_Nil)

lemma summary_due_doc_flags: "summary_due doc_flags"
  by (simp add: summary_due_def doc_flags_def present_def last_payload_def get_category_def
      get_details_def)

lemma summary_due_doc_repeated: "\<not> summary_due doc_repeated"
  by (simp add: summary_due_def doc_repeated_def present_def last_payload_def get_category_def
      get_details_def)

lemma toc_entries_doc_repeated: "toc_entries (extract_sections doc_repeated) = []"
  by (simp add: toc_entries_def any_flat_def section_truthy_last doc_repeated_def
      present_def last_payload_def get_category_def get_details_def dom_extract_sections)

lemma blocks_doc_repeated:
  \<open>collect_blocks (map (section_block doc_repeated) (section_table tag_lib None)) =
     Inr (''<h2 id="unsupported-features">Unsupported Features</h2>'' @
          ''<p class="no-issues">No unsupported features found.</p>'')\<close>
  by (simp add: section_table_def section_block_def doc_repeated_def present_def
      last_payload_def get_category_def get_details_def generate_unsupported_features_section_def)

text \<open>
  Claim C5, as amended. The table of contents has the Summary anchor, and the report
  has the Summary of Issues section right behind the table of contents, exactly when
  for one of the three flat categories the last section that carries the category has a
  non-empty payload. For a document in which no category is repeated this is: exactly
  when a section of a flat category has at least one record.
\<close>

theorem summary_iff_last_flat_payload:
  \<open>((''summary'', ''Summary of Issues'') \<in> set (toc_entries (extract_sections data)) \<longleftrightarrow>
      summary_due data) \<and>
   (summary_due data \<longleftrightarrow>
      (\<exists>c. flat_category c \<and> present c data \<and> truthy (last_payload c data))) \<and>
   (summary_due data \<longrightarrow>
      generate_html_report lib style now data xml_root =
        and_then (generate_summary_table data)
          (\<lambda>table.
             and_then (collect_blocks (map (section_block data) (section_table lib xml_root)))
               (\<lambda>rest. Inr (page_head style now @
                             concat (map toc_link (toc_entries (extract_sections data))) @
                             toc_close @
                             ''        <h2 id="summary">Summary of Issues</h2>\<newline>'' @
                             table @ rest @ page_foot)))) \<and>
   (\<not> summary_due data \<longrightarrow>
      generate_html_report lib style now data xml_root =
        and_then (collect_blocks (map (section_block data) (section_table lib xml_root)))
          (\<lambda>rest. Inr (page_head style now @
                        concat (map toc_link (toc_entries (extract_sections data))) @
                        toc_close @ rest @ page_foot))) \<and>
   (distinct (map (\<lambda>sec. get_category sec ''Unknown'') data) \<longrightarrow>
      (summary_due data \<longleftrightarrow>
         (\<exists>sec \<in> set data.
             flat_category (get_category sec ''Unknown'') \<and> truthy (get_details sec))))\<close>
  using summary_anchor_any_flat[of "extract_sections data"] any_flat_summary_due[of data]
    summary_due_flat[of data] report_with_summary[of data lib style now xml_root]
    report_without_summary[of data lib style now xml_root] summary_due_distinct[of data]
  by (intro conjI impI) simp_all

theorem summary_iff_last_flat_payload_witness:
  "summary_due doc_flags \<and>
   (''summary'', ''Summary of Issues'') \<in> set (toc_entries (extract_sections doc_flags)) \<and>
   \<not> summary_due doc_repeated \<and>
   (''summary'', ''Summary of Issues'') \<notin> set (toc_entries (extract_sections doc_repeated))"
  using conjunct1[OF summary_iff_last_flat_payload[of doc_flags tag_lib "[]" sample_now None]]
    conjunct1[OF summary_iff_last_flat_payload[of doc_repeated tag_lib "[]" sample_now None]]
    summary_due_doc_flags summary_due_doc_repeated
  by simp

text \<open>
  With a repeated category the claim as stated fails: the first of two Unsupported
  Features sections has a record, which the aggregator turns into a row, the second is
  empty, and the report has neither the anchor nor the Summary section.
\<close>

theorem summary_absent_counterexample:
  \<open>summary_items doc_repeated = Inr [normalized_row ''Unsupported Features'' finding_r1] \<and>
    toc_entries (extract_sections doc_repeated) = [] \<and>
    generate_html_report tag_lib [] sample_now doc_repeated None =
      Inr (page_head [] sample_now @ toc_close @
           ''<h2 id="unsupported-features">Unsupported Features</h2>'' @
           ''<p class="no-issues">No unsupported features found.</p>'' @
           page_foot)\<close>
proof (intro conjI)
  show "summary_items doc_repeated = Inr [normalized_row ''Unsupported Features'' finding_r1]"
    by (simp add: summary_items_def collect_items_rows doc_repeated_def flat_category_def
        readable_records_def get_category_def get_details_def section_rows_def section_records_def)
  show "toc_entries (extract_sections doc_repeated) = []" by (rule toc_entries_doc_repeated)
  show \<open>generate_html_report tag_lib [] sample_now doc_repeated None =
      Inr (page_head [] sample_now @ toc_close @
           ''<h2 id="unsupported-features">Unsupported Features</h2>'' @
           ''<p class="no-issues">No unsupported features found.</p>'' @
           page_foot)\<close>
    unfolding report_without_summary[OF summary_due_doc_repeated] blocks_doc_repeated
      toc_entries_doc_repeated
    by simp
qed

section \<open>The clock reading\<close>

text \<open>
  Claim C8. For a fixed document, tree and library the report is the same text for
  every clock reading except for the one field that holds the escaped clock reading:
  either every run raises the same error, or every run returns the same text before the
  field and the same text behind it. The clock is the only input read at render time.
\<close>

theorem report_clock_field:
  "(\<exists>before after. \<forall>now.
      generate_html_report lib style now data xml_root = Inr (before @ escape now @ after)) \<or>
   (\<exists>e. \<forall>now. generate_html_report lib style now data xml_root = Inl e)"
proof (cases "collect_blocks (summary_block data # map (section_block data) (section_table lib xml_root))")
  case (Inl e)
  then have "\<forall>now. generate_html_report lib style now data xml_root = Inl e"
    by (simp only: report_blocks and_then.simps) simp
  then show ?thesis by blast
next
  case (Inr body)
  have "\<forall>now. generate_html_report lib style now data xml_root =
      Inr (page_head_before style @ escape now @
           (page_head_after @ concat (map toc_link (toc_entries (extract_sections data))) @
            toc_close @ body @ page_foot))"
    by (simp only: report_blocks Inr and_then.simps page_head_def append_assoc) simp
  then show ?thesis by blast
qed

section \<open>Sections of other categories\<close>

lemma present_filter_rendered:
  "rendered_category c \<Longrightarrow>
     present c (filter (\<lambda>sec. rendered_category (get_category sec ''Unknown'')) data) =
       present c data"
  by (auto simp: present_def list_ex_iff)

lemma last_payload_filter_rendered:
  assumes "rendered_category c"
  shows "last_payload c (filter (\<lambda>sec. rendered_category (get_category sec ''Unknown'')) data) =
           last_payload c data"
proof -
  have "filter (\<lambda>sec. get_category sec ''Unknown'' = c)
          (filter (\<lambda>sec. rendered_category (get_category sec ''Unknown'')) data) =
        filter (\<lambda>sec. get_category sec ''Unknown'' = c) data"
    using assms by (induction data) auto
  then show ?thesis by (simp add: last_payload_def)
qed

lemma extract_sections_filter_rendered:
  "rendered_category c \<Longrightarrow>
     extract_sections (filter (\<lambda>sec. rendered_category (get_category sec ''Unknown'')) data) c =
       extract_sections data c"
  by (simp add: extract_sections_last present_filter_rendered last_payload_filter_rendered)

lemma rendered_category_simps:
  "rendered_category ''Unsupported Features''" "rendered_category ''Unsupported Flags''"
  "rendered_category ''Blocking Features''" "rendered_category ''Configuration Summary''"
  "rendered_category ''Templates''" "rendered_category ''Template-stacks''"
  "rendered_category ''Device Groups''"
  by (simp_all add: rendered_category_def)

lemma toc_entries_filter_rendered:
  "toc_entries (extract_sections (filter (\<lambda>sec. rendered_category (get_category sec ''Unknown'')) data)) =
     toc_entries (extract_sections data)"
  by (simp only: toc_entries_def any_flat_def section_truthy_def dom_extract_sections
      present_filter_rendered extract_sections_filter_rendered rendered_category_simps
      list_ex_Nil_iff list_ex_Cons_iff)

lemma summary_due_filter_rendered:
  "summary_due (filter (\<lambda>sec. rendered_category (get_category sec ''Unknown'')) data) =
     summary_due data"
  by (simp only: summary_due_def list_ex_Nil_iff list_ex_Cons_iff present_filter_rendered
      last_payload_filter_rendered rendered_category_simps)

lemma section_block_filter_rendered:
  "rendered_category c \<Longrightarrow>
     section_block (filter (\<lambda>sec. rendered_category (get_category sec ''Unknown'')) data)
       (c, heading, render) = section_block data (c, heading, render)"
  by (simp add: section_block_def present_filter_rendered last_payload_filter_rendered)

lemma section_blocks_filter_rendered:
  "map (section_block (filter (\<lambda>sec. rendered_category (get_category sec ''Unknown'')) data))
       (section_table lib xml_root) =
   map (section_block data) (section_table lib xml_root)"
  by (simp only: section_table_def list.map section_block_filter_rendered rendered_category_simps)

lemma flat_is_rendered:
  "flat_category (get_category sec '''') \<Longrightarrow> rendered_category (get_category sec ''Unknown'')"
  by (auto simp: flat_category_def rendered_category_def get_category_def split: option.splits)

lemma section_rows_not_rendered:
  "\<not> rendered_category (get_category sec ''Unknown'') \<Longrightarrow> section_rows sec = []"
  using flat_is_rendered[of sec] by (auto simp: section_rows_def)

lemma summary_items_filter_rendered:
  "summary_items (filter (\<lambda>sec. rendered_category (get_category sec ''Unknown'')) data) =
     summary_items data"
proof -
  have a: "list_all (\<lambda>sec. flat_category (get_category sec '''') \<longrightarrow> readable_records sec)
             (filter (\<lambda>sec. rendered_category (get_category sec ''Unknown'')) data) =
           list_all (\<lambda>sec. flat_category (get_category sec '''') \<longrightarrow> readable_records sec) data"
    using flat_is_rendered by (induction data) auto
  have b: "concat (map section_rows (filter (\<lambda>sec. rendered_category (get_category sec ''Unknown'')) data)) =
           concat (map section_rows data)"
    by (induction data) (simp_all add: section_rows_not_rendered)
  show ?thesis by (simp only: summary_items_def collect_items_rows a b)
qed

lemma summary_block_filter_rendered:
  "summary_block (filter (\<lambda>sec. rendered_category (get_category sec ''Unknown'')) data) =
     summary_block data"
  by (simp only: summary_block_def summary_due_filter_rendered generate_summary_table_def
      summary_items_filter_rendered)

lemma toc_entries_doc_unknown: "toc_entries (extract_sections doc_unknown) = []"
  by (simp add: toc_entries_def any_flat_def section_truthy_last doc_unknown_def
      present_def last_payload_def get_category_def get_details_def dom_extract_sections)

lemma summary_due_doc_unknown: "\<not> summary_due doc_unknown"
  by (simp add: summary_due_def doc_unknown_def present_def get_category_def)

lemma blocks_doc_unknown:
  "collect_blocks (map (section_block doc_unknown) (section_table tag_lib None)) = Inr []"
  by (simp add: section_table_def section_block_def doc_unknown_def present_def get_category_def)

lemma report_doc_unknown:
  "generate_html_report tag_lib [] sample_now doc_unknown None =
     Inr (page_head [] sample_now @ toc_close @ page_foot)"
  unfolding report_without_summary[OF summary_due_doc_unknown] blocks_doc_unknown
    toc_entries_doc_unknown
  by simp

text \<open>
  Claim C2, as amended. A section whose category is none of the seven rendered ones
  contributes nothing to the report: the report of the document is the report of the
  document without these sections, the aggregator returns the same rows, and such a
  section has no row in the summary table.
\<close>

theorem unrendered_sections_dropped:
  "generate_html_report lib style now
     (filter (\<lambda>sec. rendered_category (get_category sec ''Unknown'')) data) xml_root =
     generate_html_report lib style now data xml_root \<and>
   summary_items (filter (\<lambda>sec. rendered_category (get_category sec ''Unknown'')) data) =
     summary_items data \<and>
   (\<forall>sec. \<not> rendered_category (get_category sec ''Unknown'') \<longrightarrow> section_rows sec = [])"
  by (simp only: report_blocks summary_block_filter_rendered section_blocks_filter_rendered
      toc_entries_filter_rendered summary_items_filter_rendered) (simp add: section_rows_not_rendered)

theorem unrendered_sections_dropped_witness:
  "filter (\<lambda>sec. rendered_category (get_category sec ''Unknown'')) doc_unknown = [] \<and>
   generate_html_report tag_lib [] sample_now doc_unknown None =
     generate_html_report tag_lib [] sample_now [] None \<and>
   summary_items doc_unknown = Inr []"
proof -
  have f: "filter (\<lambda>sec. rendered_category (get_category sec ''Unknown'')) doc_unknown = []"
    by (simp add: doc_unknown_def rendered_category_def get_category_def)
  show ?thesis
    using unrendered_sections_dropped[of tag_lib "[]" sample_now doc_unknown None]
    unfolding f by (simp add: summary_items_def)
qed

text \<open>
  The record of a section of category \<^verbatim>\<open>Other\<close> is not passed into the report: the
  report is the page without any section, as for the empty document.
\<close>

theorem unknown_category_counterexample:
  "get_details (hd doc_unknown) = Records [finding_r1] \<and>
   generate_html_report tag_lib [] sample_now doc_unknown None =
     Inr (page_head [] sample_now @ toc_close @ page_foot) \<and>
   generate_html_report tag_lib [] sample_now [] None =
     Inr (page_head [] sample_now @ toc_close @ page_foot)"
proof (intro conjI)
  show "get_details (hd doc_unknown) = Records [finding_r1]"
    by (simp add: doc_unknown_def get_details_def)
  show "generate_html_report tag_lib [] sample_now doc_unknown None =
     Inr (page_head [] sample_now @ toc_close @ page_foot)"
    by (rule report_doc_unknown)
  have d: "\<not> summary_due []" by (simp add: summary_due_def present_def)
  have b: "collect_blocks (map (section_block []) (section_table tag_lib None)) = Inr []"
    by (simp add: section_table_def section_block_def present_def)
  have t: "toc_entries (extract_sections []) = []"
    by (simp add: toc_entries_def any_flat_def section_truthy_last present_def dom_extract_sections)
  show "generate_html_report tag_lib [] sample_now [] None =
     Inr (page_head [] sample_now @ toc_close @ page_foot)"
    unfolding report_without_summary[OF d] b t by simp
qed

section \<open>Repeated categories\<close>

lemma last_payload_repeated:
  assumes "get_category second ''Unknown'' = c"
    and "\<forall>sec \<in> set after. get_category sec ''Unknown'' \<noteq> c"
  shows "last_payload c (before @ first # between @ second # after) = get_details second"
proof -
  have "filter (\<lambda>sec. get_category sec ''Unknown'' = c) after = []"
    using assms(2) by (simp add: filter_empty_conv)
  then show ?thesis using assms(1) by (simp add: last_payload_def)
qed

lemma generate_summary_table_rows:
  \<open>generate_summary_table data =
     (if list_all (\<lambda>sec. flat_category (get_category sec '''') \<longrightarrow> readable_records sec) data
      then (if concat (map section_rows data) = []
            then Inr ''<p class="no-issues">No issues found in configuration.</p>''
            else Inr (summary_table_head @
                      concat (map summary_row (concat (map section_rows data))) @
                      summary_table_foot))
      else Inl AttributeError)\<close>
  by (simp only: generate_summary_table_def summary_items_def collect_items_rows append_Nil
      and_then.simps if_distrib[of "\<lambda>r. and_then r _"] cong: if_cong)

lemma toc_entries_doc_twice:
  "toc_entries (extract_sections doc_twice) =
     [(''summary'', ''Summary of Issues''), (''unsupported-features'', ''Unsupported Features'')]"
  by (simp add: toc_entries_def any_flat_def section_truthy_last doc_twice_def
      present_def last_payload_def get_category_def get_details_def dom_extract_sections)

lemma summary_due_doc_twice: "summary_due doc_twice"
  by (simp add: summary_due_def doc_twice_def present_def last_payload_def get_category_def
      get_details_def)

lemma summary_row_r1:
  \<open>summary_row (normalized_row ''Unsupported Features'' finding_r1) =
     ''\<newline>'' @
     ''                <tr class="category-unsupported">\<newline>'' @
     ''                    <td class="category-cell">Unsupported Features</td>\<newline>'' @
     ''                    <td class="rule-id-cell">R1</td>\<newline>'' @
     ''                    <td class="description-cell">a &lt; b</td>\<newline>'' @
     ''                    <td>N/A</td>\<newline>'' @
     ''                    <td>N/A</td>\<newline>'' @
     ''                    <td>N/A</td>\<newline>'' @
     ''                    <td class="count-cell">3</td>\<newline>'' @
     ''                    <td>N/A</td>\<newline>'' @
     ''                </tr>\<newline>'' @
     ''        ''\<close>
  by (simp add: summary_row_def normalized_row_def finding_r1_def category_class_def escape_def
      replace_char_def str_int_def)

lemma summary_row_r2:
  \<open>summary_row (normalized_row ''Unsupported Features'' finding_r2) =
     ''\<newline>'' @
     ''                <tr class="category-unsupported">\<newline>'' @
     ''                    <td class="category-cell">Unsupported Features</td>\<newline>'' @
     ''                    <td class="rule-id-cell">R2</td>\<newline>'' @
     ''                    <td class="description-cell">N/A</td>\<newline>'' @
     ''                    <td>qos</td>\<newline>'' @
     ''                    <td>N/A</td>\<newline>'' @
     ''                    <td>N/A</td>\<newline>'' @
     ''                    <td class="count-cell">0</td>\<newline>'' @
     ''                    <td>shared</td>\<newline>'' @
     ''                </tr>\<newline>'' @
     ''        ''\<close>
  by (simp add: summary_row_def normalized_row_def finding_r2_def category_class_def escape_def
      replace_char_def str_int_def)

lemma section_rows_doc_twice:
  "section_rows \<lparr>category = Some ''Unsupported Features'', details = Some (Records [finding_r1])\<rparr> =
     [normalized_row ''Unsupported Features'' finding_r1]"
  "section_rows \<lparr>category = Some ''Unsupported Features'', details = Some (Records [finding_r2])\<rparr> =
     [normalized_row ''Unsupported Features'' finding_r2]"
  by (simp_all add: section_rows_def section_records_def flat_category_def get_category_def
      get_details_def)

lemma other_blocks_doc_twice:
  "map (section_block doc_twice) (section_table lib xml_root) =
     [section_block doc_twice
        (''Unsupported Features'', ''<h2 id=\"unsupported-features\">Unsupported Features</h2>'',
         \<lambda>payload. generate_unsupported_features_section lib payload xml_root),
      Inr [], Inr [], Inr [], Inr [], Inr [], Inr []]"
  by (simp add: section_table_def section_block_def doc_twice_def present_def get_category_def)

text \<open>
  Claim C10. When two sections carry the same category and no later section does, the
  category map holds the payload of the second, and the block of that category in the
  report renders the payload of the second only. The aggregator still returns the rows
  of every section, the first and the second included, in input order, and the summary
  table that \<^verbatim>\<open>generate_summary_table\<close> builds is its head, one rendered row for each of
  these rows in the same order, and its foot; when the Summary is due, the report holds
  this table behind the Summary heading.
\<close>

theorem repeated_category_last_wins:
  assumes "data = before @ first # between @ second # after"
    and "get_category first ''Unknown'' = c"
    and "get_category second ''Unknown'' = c"
    and "\<forall>sec \<in> set after. get_category sec ''Unknown'' \<noteq> c"
  shows \<open>extract_sections data c = Some (get_details second) \<and>
    (\<forall>heading render.
       section_block data (c, heading, render) =
         and_then (render (get_details second)) (\<lambda>body. Inr (heading @ body))) \<and>
    generate_html_report lib style now data xml_root =
      and_then
        (collect_blocks (summary_block data # map (section_block data) (section_table lib xml_root)))
        (\<lambda>body. Inr (page_head style now @
                      concat (map toc_link (toc_entries (extract_sections data))) @
                      toc_close @ body @ page_foot)) \<and>
    summary_items data =
      (if list_all (\<lambda>sec. flat_category (get_category sec '''') \<longrightarrow> readable_records sec) data
       then Inr (concat (map section_rows before) @ section_rows first @
                 concat (map section_rows between) @ section_rows second @
                 concat (map section_rows after))
       else Inl AttributeError) \<and>
    generate_summary_table data =
      (if list_all (\<lambda>sec. flat_category (get_category sec '''') \<longrightarrow> readable_records sec) data
       then (if concat (map section_rows before) @ section_rows first @
                concat (map section_rows between) @ section_rows second @
                concat (map section_rows after) = []
             then Inr ''<p class="no-issues">No issues found in configuration.</p>''
             else Inr (summary_table_head @
                       concat (map summary_row (concat (map section_rows before))) @
                       concat (map summary_row (section_rows first)) @
                       concat (map summary_row (concat (map section_rows between))) @
                       concat (map summary_row (section_rows second)) @
                       concat (map summary_row (concat (map section_rows after))) @
                       summary_table_foot))
       else Inl AttributeError) \<and>
    (summary_due data \<longrightarrow>
       generate_html_report lib style now data xml_root =
         and_then (generate_summary_table data)
           (\<lambda>table.
              and_then (collect_blocks (map (section_block data) (section_table lib xml_root)))
                (\<lambda>rest. Inr (page_head style now @
                              concat (map toc_link (toc_entries (extract_sections data))) @
                              toc_close @
                              ''        <h2 id="summary">Summary of Issues</h2>\<newline>'' @
                              table @ rest @ page_foot))))\<close>
proof -
  have p: "present c data" using assms(1,2) by (auto simp: present_def list_ex_iff)
  have l: "last_payload c data = get_details second"
    unfolding assms(1) using assms(3,4) by (rule last_payload_repeated)
  have rows: "concat (map section_rows data) =
      concat (map section_rows before) @ section_rows first @
      concat (map section_rows between) @ section_rows second @ concat (map section_rows after)"
    unfolding assms(1) by simp
  have cells: "concat (map summary_row (concat (map section_rows data))) =
      concat (map summary_row (concat (map section_rows before))) @
      concat (map summary_row (section_rows first)) @
      concat (map summary_row (concat (map section_rows between))) @
      concat (map summary_row (section_rows second)) @
      concat (map summary_row (concat (map section_rows after)))"
    unfolding rows by simp
  have 1: "extract_sections data c = Some (get_details second)"
    using p l by (simp add: extract_sections_last)
  have 2: "\<forall>heading render.
       section_block data (c, heading, render) =
         and_then (render (get_details second)) (\<lambda>body. Inr (heading @ body))"
    using p l by (simp add: section_block_def)
  have 4: "summary_items data =
      (if list_all (\<lambda>sec. flat_category (get_category sec '''') \<longrightarrow> readable_records sec) data
       then Inr (concat (map section_rows before) @ section_rows first @
                 concat (map section_rows between) @ section_rows second @
                 concat (map section_rows after))
       else Inl AttributeError)"
    by (simp add: summary_items_def collect_items_rows rows)
  have 5: \<open>generate_summary_table data =
      (if list_all (\<lambda>sec. flat_category (get_category sec '''') \<longrightarrow> readable_records sec) data
       then (if concat (map section_rows before) @ section_rows first @
                concat (map section_rows between) @ section_rows second @
                concat (map section_rows after) = []
             then Inr ''<p class="no-issues">No issues found in configuration.</p>''
             else Inr (summary_table_head @
                       concat (map summary_row (concat (map section_rows before))) @
                       concat (map summary_row (section_rows first)) @
                       concat (map summary_row (concat (map section_rows between))) @
                       concat (map summary_row (section_rows second)) @
                       concat (map summary_row (concat (map section_rows after))) @
                       summary_table_foot))
       else Inl AttributeError)\<close>
    by (simp only: generate_summary_table_rows[of data] cells append_assoc) (simp only: rows)
  show ?thesis
    using 1 2 4 5 report_blocks[of lib style now data xml_root]
      report_with_summary[of data lib style now xml_root]
    by (intro conjI impI) assumption+
qed

theorem repeated_category_last_wins_witness:
  \<open>generate_summary_table doc_twice =
      Inr (summary_table_head @
           (''\<newline>'' @
            ''                <tr class="category-unsupported">\<newline>'' @
            ''                    <td class="category-cell">Unsupported Features</td>\<newline>'' @
            ''                    <td class="rule-id-cell">R1</td>\<newline>'' @
            ''                    <td class="description-cell">a &lt; b</td>\<newline>'' @
            ''                    <td>N/A</td>\<newline>'' @
            ''                    <td>N/A</td>\<newline>'' @
            ''                    <td>N/A</td>\<newline>'' @
            ''                    <td class="count-cell">3</td>\<newline>'' @
            ''                    <td>N/A</td>\<newline>'' @
            ''                </tr>\<newline>'' @
            ''        '') @
           (''\<newline>'' @
            ''                <tr class="category-unsupported">\<newline>'' @
            ''                    <td class="category-cell">Unsupported Features</td>\<newline>'' @
            ''                    <td class="rule-id-cell">R2</td>\<newline>'' @
            ''                    <td class="description-cell">N/A</td>\<newline>'' @
            ''                    <td>qos</td>\<newline>'' @
            ''                    <td>N/A</td>\<newline>'' @
            ''                    <td>N/A</td>\<newline>'' @
            ''                    <td class="count-cell">0</td>\<newline>'' @
            ''                    <td>shared</td>\<newline>'' @
            ''                </tr>\<newline>'' @
            ''        '') @
           summary_table_foot) \<and>
    section_block doc_twice
      (''Unsupported Features'', ''<h2 id="unsupported-features">Unsupported Features</h2>'',
       \<lambda>payload. generate_unsupported_features_section tag_lib payload None) =
      Inr (''<h2 id="unsupported-features">Unsupported Features</h2>'' @
           ''<div class="details-grid">'' @ detail_card tag_lib None finding_r2 @ ''</div>'') \<and>
    generate_html_report tag_lib [] sample_now doc_twice None =
      Inr (page_head [] sample_now @
           toc_link (''summary'', ''Summary of Issues'') @
           toc_link (''unsupported-features'', ''Unsupported Features'') @
           toc_close @
           ''        <h2 id="summary">Summary of Issues</h2>\<newline>'' @
           summary_table_head @
           summary_row (normalized_row ''Unsupported Features'' finding_r1) @
           summary_row (normalized_row ''Unsupported Features'' finding_r2) @
           summary_table_foot @
           ''<h2 id="unsupported-features">Unsupported Features</h2>'' @
           ''<div class="details-grid">'' @ detail_card tag_lib None finding_r2 @ ''</div>'' @
           page_foot)\<close>
proof -
  have d: "doc_twice =
      [] @ \<lparr>category = Some ''Unsupported Features'', details = Some (Records [finding_r1])\<rparr> #
      [] @ \<lparr>category = Some ''Unsupported Features'', details = Some (Records [finding_r2])\<rparr> # []"
    by (simp add: doc_twice_def)
  have c1: "get_category \<lparr>category = Some ''Unsupported Features'',
      details = Some (Records [finding_r1])\<rparr> ''Unknown'' = ''Unsupported Features''"
    by (simp add: get_category_def)
  have c2: "get_category \<lparr>category = Some ''Unsupported Features'',
      details = Some (Records [finding_r2])\<rparr> ''Unknown'' = ''Unsupported Features''"
    by (simp add: get_category_def)
  have c3: "\<forall>sec \<in> set []. get_category sec ''Unknown'' \<noteq> ''Unsupported Features''"
    by simp
  note T = repeated_category_last_wins[OF d c1 c2 c3, of tag_lib "[]" sample_now None]
  have a: "list_all (\<lambda>sec. flat_category (get_category sec '''') \<longrightarrow> readable_records sec) doc_twice"
    by (simp add: doc_twice_def readable_records_def get_details_def)
  have block: \<open>section_block doc_twice
      (''Unsupported Features'', ''<h2 id="unsupported-features">Unsupported Features</h2>'',
       \<lambda>payload. generate_unsupported_features_section tag_lib payload None) =
      Inr (''<h2 id="unsupported-features">Unsupported Features</h2>'' @
           ''<div class="details-grid">'' @ detail_card tag_lib None finding_r2 @ ''</div>'')\<close>
    using T[THEN conjunct2, THEN conjunct1]
    by (simp add: get_details_def generate_unsupported_features_section_def)
  have table: "generate_summary_table doc_twice =
      Inr (summary_table_head @
           summary_row (normalized_row ''Unsupported Features'' finding_r1) @
           summary_row (normalized_row ''Unsupported Features'' finding_r2) @
           summary_table_foot)"
    using T[THEN conjunct2, THEN conjunct2, THEN conjunct2, THEN conjunct2, THEN conjunct1] a
    by (simp add: section_rows_doc_twice)
  have report: \<open>generate_html_report tag_lib [] sample_now doc_twice None =
         and_then (generate_summary_table doc_twice)
           (\<lambda>table.
              and_then (collect_blocks (map (section_block doc_twice) (section_table tag_lib None)))
                (\<lambda>rest. Inr (page_head [] sample_now @
                              concat (map toc_link (toc_entries (extract_sections doc_twice))) @
                              toc_close @
                              ''        <h2 id="summary">Summary of Issues</h2>\<newline>'' @
                              table @ rest @ page_foot)))\<close>
    using T[THEN conjunct2, THEN conjunct2, THEN conjunct2, THEN conjunct2, THEN conjunct2]
      summary_due_doc_twice
    by (rule mp)
  show ?thesis
  proof (intro conjI)
    show \<open>section_block doc_twice
      (''Unsupported Features'', ''<h2 id="unsupported-features">Unsupported Features</h2>'',
       \<lambda>payload. generate_unsupported_features_section tag_lib payload None) =
      Inr (''<h2 id="unsupported-features">Unsupported Features</h2>'' @
           ''<div class="details-grid">'' @ detail_card tag_lib None finding_r2 @ ''</div>'')\<close>
      by (rule block)
  next
    show \<open>generate_html_report tag_lib [] sample_now doc_twice None =
      Inr (page_head [] sample_now @
           toc_link (''summary'', ''Summary of Issues'') @
           toc_link (''unsupported-features'', ''Unsupported Features'') @
           toc_close @
           ''        <h2 id="summary">Summary of Issues</h2>\<newline>'' @
           summary_table_head @
           summary_row (normalized_row ''Unsupported Features'' finding_r1) @
           summary_row (normalized_row ''Unsupported Features'' finding_r2) @
           summary_table_foot @
           ''<h2 id="unsupported-features">Unsupported Features</h2>'' @
           ''<div class="details-grid">'' @ detail_card tag_lib None finding_r2 @ ''</div>'' @
           page_foot)\<close>
      unfolding report table other_blocks_doc_twice block toc_entries_doc_twice
      by simp
  next
    show \<open>generate_summary_table doc_twice =
      Inr (summary_table_head @
           (''\<newline>'' @
            ''                <tr class="category-unsupported">\<newline>'' @
            ''                    <td class="category-cell">Unsupported Features</td>\<newline>'' @
            ''                    <td class="rule-id-cell">R1</td>\<newline>'' @
            ''                    <td class="description-cell">a &lt; b</td>\<newline>'' @
            ''                    <td>N/A</td>\<newline>'' @
            ''                    <td>N/A</td>\<newline>'' @
            ''                    <td>N/A</td>\<newline>'' @
            ''                    <td class="count-cell">3</td>\<newline>'' @
            ''                    <td>N/A</td>\<newline>'' @
            ''                </tr>\<newline>'' @
            ''        '') @
           (''\<newline>'' @
            ''                <tr class="category-unsupported">\<newline>'' @
            ''                    <td class="category-cell">Unsupported Features</td>\<newline>'' @
            ''                    <td class="rule-id-cell">R2</td>\<newline>'' @
            ''                    <td class="description-cell">N/A</td>\<newline>'' @
            ''                    <td>qos</td>\<newline>'' @
            ''                    <td>N/A</td>\<newline>'' @
            ''                    <td>N/A</td>\<newline>'' @
            ''                    <td class="count-cell">0</td>\<newline>'' @
            ''                    <td>shared</td>\<newline>'' @
            ''                </tr>\<newline>'' @
            ''        '') @
           summary_table_foot)\<close>
      unfolding table summary_row_r1 summary_row_r2 by (rule refl)
  qed
qed

section \<open>Escaping in the detail card\<close>
















end
